theory Spec2Isabelle
  imports Main "HOL-Library.AList"
begin

section \<open>Data model of EmitFilesPatch.ts\<close>

text \<open>
  Objects that the patch only passes around or compares by identity (the compiler
  object \<open>ts\<close>, the emit resolver, source files, the native emit function, the
  \<open>changedFiles\<close> set) are represented by their reference, a natural number.
\<close>

type_synonym ref = nat

text \<open>The members of TypeScript's numeric enum \<open>ModuleKind\<close>; \<open>===\<close> on them is equality.\<close>

datatype ModuleKind = NoModule | CommonJS | AMD | UMD | System | ES2015 | ES2020 | ESNext

text \<open>
  \<open>CompilerOptions\<close>: the four properties the patch writes, each optional as in
  TypeScript (\<open>declarationEmit\<close> is the property \<open>declaration\<close>, a reserved word here), and all
  remaining properties together in \<open>otherOptions\<close>.
\<close>

record 'o CompilerOptions =
  outDir :: "string option"
  module :: "ModuleKind option"
  declarationEmit :: "bool option"
  declarationMap :: "bool option"
  otherOptions :: 'o

record 'o ParsedCommandLine =
  options :: "'o CompilerOptions"
  fileNames :: "string list"

record ICachedEmitModuleKind =
  moduleKind :: ModuleKind
  outFolderPath :: string
  cacheOutFolderPath :: string
  isPrimary :: bool

text \<open>
  The emit host: what \<open>getCompilerOptions()\<close> returns, and \<open>hostMembers\<close> for every
  other member (the members of the host object with that reference).
\<close>

record 'o IEmitHost =
  getCompilerOptions :: "'o CompilerOptions"
  hostMembers :: ref

text \<open>
  The seven parameters of \<open>emitFiles\<close>. The three flags are optional booleans:
  \<open>None\<close> is \<open>undefined\<close>.
\<close>

record ('o, 't) EmitArgs =
  resolver :: ref
  host :: "'o IEmitHost"
  targetSourceFile :: "ref option"
  emitTransformers :: 't
  emitOnlyDtsFiles :: "bool option"
  onlyBuildInfo :: "bool option"
  forceDtsEmit :: "bool option"

text \<open>
  \<open>EmitResult\<close>. A property that an object does not have is \<open>None\<close>: the object
  \<open>{...undefined, emitSkipped}\<close> has no \<open>diagnostics\<close>.
\<close>

record 'd EmitResult =
  emitSkipped :: bool
  diagnostics :: "'d option"
  emittedFiles :: "string list option"

text \<open>
  What can be thrown: the two error classes the patch raises, with their messages, the
  \<open>TypeError\<close> of the JavaScript runtime, and whatever the native emitter throws.
\<close>

datatype 'x exn = InternalError string | Error string | TypeError | Thrown 'x

text \<open>
  The variables captured by the arrow function that \<open>install\<close> assigns to
  \<open>ts.emitFiles\<close> (lines 88-146). \<open>compilerOptionsMap\<close> is the JavaScript \<open>Map\<close> as the
  list of its entries in insertion order. Its keys are the objects of
  \<open>moduleKindsToEmit\<close>. The array and its objects are values here: nobody changes
  them between \<open>install\<close> and the calls of the arrow function. The value stored under
  a key is computed from the key's properties alone, so looking a key up by its
  properties gives what looking it up by identity gives.
\<close>

record 'o closure =
  cl_ts :: ref
  cl_moduleKindsToEmit :: "ICachedEmitModuleKind list"
  cl_compilerOptionsMap :: "(ICachedEmitModuleKind \<times> 'o CompilerOptions) list"
  cl_defaultModuleKind :: "ModuleKind option"
  cl_changedFiles :: "ref option"

text \<open>
  A value of the property \<open>emitFiles\<close>: a function of the compiler, known by its
  reference, or the arrow function of \<open>install\<close>, known by the variables it captured.
  Two arrow functions with the same captured variables are two objects in JavaScript
  and one value here; nothing below compares two of them.
\<close>

datatype 'o EmitFilesFn = Native ref | Patched "'o closure"

text \<open>
  The program state: the static fields \<open>_patchedTs\<close> and \<open>_baseEmitFiles\<close> of
  \<open>EmitFilesPatch\<close>, the property \<open>emitFiles\<close> of every compiler object
  (\<open>None\<close> is \<open>undefined\<close> in all three), the elements of every \<open>Set\<close> object, and
  in \<open>world\<close> everything the native emitter reads and writes (the file system, the
  program being emitted).
\<close>

record ('o, 'w) state =
  patchedTs :: "ref option"
  baseEmitFiles :: "'o EmitFilesFn option"
  emitFiles :: "ref \<Rightarrow> 'o EmitFilesFn option"
  setContents :: "ref \<Rightarrow> ref set"
  world :: 'w

section \<open>install\<close>

text \<open>
  The loop of lines 59-84 over \<open>moduleKindsToEmit\<close>, on the loop variables
  \<open>foundPrimary\<close>, \<open>defaultModuleKind\<close> (declared without a value) and
  \<open>compilerOptionsMap\<close>.
\<close>

fun installLoop :: "'o ParsedCommandLine \<Rightarrow> bool \<Rightarrow> ICachedEmitModuleKind list \<Rightarrow>
    bool \<times> ModuleKind option \<times> (ICachedEmitModuleKind \<times> 'o CompilerOptions) list \<Rightarrow>
    'x exn + bool \<times> ModuleKind option \<times> (ICachedEmitModuleKind \<times> 'o CompilerOptions) list" where
  "installLoop tsconfig useBuildCache [] acc = Inr acc"
| "installLoop tsconfig useBuildCache (moduleKindToEmit # rest)
      (foundPrimary, defaultModuleKind, compilerOptionsMap) =
     (let outDir' = (if useBuildCache then cacheOutFolderPath moduleKindToEmit
                     else outFolderPath moduleKindToEmit)
      in if isPrimary moduleKindToEmit then
           (if foundPrimary then Inl (Error ''Multiple primary module emit kinds encountered.'')
            else installLoop tsconfig useBuildCache rest
                   (True, Some (moduleKind moduleKindToEmit),
                    AList.update moduleKindToEmit
                      ((options tsconfig)\<lparr>outDir := Some outDir'\<rparr>) compilerOptionsMap))
         else installLoop tsconfig useBuildCache rest
                (foundPrimary, defaultModuleKind,
                 AList.update moduleKindToEmit
                   ((options tsconfig)\<lparr>outDir := Some outDir',
                      module := Some (moduleKind moduleKindToEmit),
                      declarationEmit := Some False,
                      declarationMap := Some False\<rparr>) compilerOptionsMap))"

text \<open>
  \<open>install\<close> (lines 39-147). The two static fields are assigned before the loop runs,
  \<open>ts.emitFiles\<close> after it.
\<close>

definition install :: "('o, 'w) state \<Rightarrow> ref \<Rightarrow> 'o ParsedCommandLine \<Rightarrow>
    ICachedEmitModuleKind list \<Rightarrow> bool \<Rightarrow> ref option \<Rightarrow> ('x exn + unit) \<times> ('o, 'w) state" where
  "install st ts tsconfig moduleKindsToEmit useBuildCache changedFiles =
     (if patchedTs st \<noteq> None then
        (Inl (InternalError
           ''EmitFilesPatch.install() cannot be called without first uninstalling the existing patch''),
         st)
      else
        let st1 = st\<lparr>patchedTs := Some ts, baseEmitFiles := emitFiles st ts\<rparr>
        in case installLoop tsconfig useBuildCache moduleKindsToEmit (False, None, []) of
             Inl e \<Rightarrow> (Inl e, st1)
           | Inr (foundPrimary, defaultModuleKind, compilerOptionsMap) \<Rightarrow>
               (Inr (),
                st1\<lparr>emitFiles := (emitFiles st1)(ts := Some (Patched
                   \<lparr>cl_ts = ts,
                    cl_moduleKindsToEmit = moduleKindsToEmit,
                    cl_compilerOptionsMap = compilerOptionsMap,
                    cl_defaultModuleKind = defaultModuleKind,
                    cl_changedFiles = changedFiles\<rparr>))\<rparr>))"

definition isInstalled :: "('o, 'w) state \<Rightarrow> bool" where
  "isInstalled st = (patchedTs st \<noteq> None)"

section \<open>uninstall\<close>

definition uninstall :: "('o, 'w) state \<Rightarrow> ref \<Rightarrow> ('x exn + unit) \<times> ('o, 'w) state" where
  "uninstall st ts =
     (case patchedTs st of
        None \<Rightarrow>
          (Inl (InternalError
             ''EmitFilesPatch.uninstall() cannot be called if no patch was installed''), st)
      | Some patched \<Rightarrow>
          if ts \<noteq> patched then
            (Inl (InternalError ''EmitFilesPatch.uninstall() called for the wrong object''), st)
          else
            (Inr (), st\<lparr>emitFiles := (emitFiles st)(ts := baseEmitFiles st),
                        patchedTs := None, baseEmitFiles := None\<rparr>))"

section \<open>The patched emitFiles\<close>

text \<open>JavaScript truthiness of an optional boolean: \<open>undefined\<close> and \<open>false\<close> are falsy.\<close>

definition truthy :: "bool option \<Rightarrow> bool" where
  "truthy b = (b = Some True)"

text \<open>
  The arguments of the call of lines 122-133 for one element of \<open>moduleKindsToEmit\<close>:
  the host with \<open>getCompilerOptions\<close> replaced, and the transformers that
  \<open>ts.getTransformers\<close> gives for the element's compiler options. \<open>getTransformers\<close>
  is a function of the compiler and a parameter here: its first argument is the
  compiler object whose method it is.
\<close>

definition flavorArgs :: "(ref \<Rightarrow> 'o CompilerOptions \<Rightarrow> bool option \<Rightarrow> 't) \<Rightarrow> ref \<Rightarrow>
    ('o, 't) EmitArgs \<Rightarrow> 'o CompilerOptions \<Rightarrow> ('o, 't) EmitArgs" where
  "flavorArgs getTransformers ts args compilerOptions =
     args\<lparr>host := (host args)\<lparr>getCompilerOptions := compilerOptions\<rparr>,
          emitTransformers := getTransformers ts compilerOptions (emitOnlyDtsFiles args)\<rparr>"

text \<open>
  The loop of lines 115-140 on the loop variables \<open>defaultModuleKindResult\<close> (declared
  without a value) and \<open>emitSkipped\<close>. \<open>base\<close> is the value of the static field
  \<open>_baseEmitFiles\<close>, read at every call; calling \<open>undefined\<close> throws a \<open>TypeError\<close>.
  \<open>invoke f a sets w\<close> is what calling the function value \<open>f\<close> on the arguments \<open>a\<close>
  does in the world \<open>w\<close> while the \<open>Set\<close> objects hold \<open>sets\<close>: it returns or throws,
  and leaves a new world. The native emitter may read the \<open>Set\<close> objects; it does not
  write them, the static fields or \<open>ts.emitFiles\<close>. An exception ends the loop.
\<close>

fun fanOut :: "('o EmitFilesFn \<Rightarrow> ('o, 't) EmitArgs \<Rightarrow> (ref \<Rightarrow> ref set) \<Rightarrow> 'w \<Rightarrow>
      ('x exn + 'd EmitResult) \<times> 'w) \<Rightarrow>
    (ref \<Rightarrow> 'o CompilerOptions \<Rightarrow> bool option \<Rightarrow> 't) \<Rightarrow> 'o closure \<Rightarrow>
    'o EmitFilesFn option \<Rightarrow> ('o, 't) EmitArgs \<Rightarrow> ICachedEmitModuleKind list \<Rightarrow>
    'd EmitResult option \<times> bool \<Rightarrow> (ref \<Rightarrow> ref set) \<Rightarrow> 'w \<Rightarrow>
    ('x exn + 'd EmitResult option \<times> bool) \<times> 'w" where
  "fanOut invoke getTransformers clo base args [] acc sets w = (Inr acc, w)"
| "fanOut invoke getTransformers clo base args (moduleKindToEmit # rest)
      (defaultModuleKindResult, emitSkipped') sets w =
     (case map_of (cl_compilerOptionsMap clo) moduleKindToEmit of
        None \<Rightarrow> (Inl TypeError, w)
      | Some compilerOptions \<Rightarrow>
          if outDir compilerOptions = None \<or> outDir compilerOptions = Some [] then
            (Inl (InternalError ''Expected compilerOptions.outDir to be assigned''), w)
          else
            (case base of
               None \<Rightarrow> (Inl TypeError, w)
             | Some f \<Rightarrow>
                 (case invoke f (flavorArgs getTransformers (cl_ts clo) args compilerOptions)
                         sets w of
                    (Inl e, w') \<Rightarrow> (Inl e, w')
                  | (Inr flavorResult, w') \<Rightarrow>
                      fanOut invoke getTransformers clo base args rest
                        (if Some (moduleKind moduleKindToEmit) = cl_defaultModuleKind clo
                         then Some flavorResult else defaultModuleKindResult,
                         emitSkipped' \<or> emitSkipped flavorResult) sets w')))"

text \<open>The object \<open>{...defaultModuleKindResult!, emitSkipped}\<close> of lines 141-144.\<close>

definition spreadResult :: "'d EmitResult option \<Rightarrow> bool \<Rightarrow> 'd EmitResult" where
  "spreadResult defaultModuleKindResult emitSkipped' =
     (case defaultModuleKindResult of
        None \<Rightarrow> \<lparr>emitSkipped = emitSkipped', diagnostics = None, emittedFiles = None\<rparr>
      | Some r \<Rightarrow> r\<lparr>emitSkipped := emitSkipped'\<rparr>)"

text \<open>The arrow function of lines 88-146, with the variables it captured in \<open>clo\<close>.\<close>

definition emitFilesPatched :: "('o EmitFilesFn \<Rightarrow> ('o, 't) EmitArgs \<Rightarrow> (ref \<Rightarrow> ref set) \<Rightarrow> 'w \<Rightarrow>
      ('x exn + 'd EmitResult) \<times> 'w) \<Rightarrow>
    (ref \<Rightarrow> 'o CompilerOptions \<Rightarrow> bool option \<Rightarrow> 't) \<Rightarrow> 'o closure \<Rightarrow>
    ('o, 'w) state \<Rightarrow> ('o, 't) EmitArgs \<Rightarrow> ('x exn + 'd EmitResult) \<times> ('o, 'w) state" where
  "emitFilesPatched invoke getTransformers clo st args =
     (if truthy (onlyBuildInfo args) \<or> truthy (emitOnlyDtsFiles args) then
        (case baseEmitFiles st of
           None \<Rightarrow> (Inl TypeError, st)
         | Some f \<Rightarrow>
             (case invoke f args (setContents st) (world st) of
                (r, w') \<Rightarrow> (r, st\<lparr>world := w'\<rparr>)))
      else
        let st1 = (case (targetSourceFile args, cl_changedFiles clo) of
                     (Some sourceFile, Some changedFiles) \<Rightarrow>
                       st\<lparr>setContents := (setContents st)
                            (changedFiles := insert sourceFile (setContents st changedFiles))\<rparr>
                   | _ \<Rightarrow> st)
        in case fanOut invoke getTransformers clo (baseEmitFiles st1) args
                  (cl_moduleKindsToEmit clo) (None, False) (setContents st1) (world st1) of
             (Inl e, w') \<Rightarrow> (Inl e, st1\<lparr>world := w'\<rparr>)
           | (Inr (defaultModuleKindResult, emitSkipped'), w') \<Rightarrow>
               (Inr (spreadResult defaultModuleKindResult emitSkipped'), st1\<lparr>world := w'\<rparr>))"

text \<open>
  The call \<open>ts.emitFiles(...)\<close> that the compiler makes: the value of the property
  decides what runs.
\<close>

definition callEmitFiles :: "('o EmitFilesFn \<Rightarrow> ('o, 't) EmitArgs \<Rightarrow> (ref \<Rightarrow> ref set) \<Rightarrow> 'w \<Rightarrow>
      ('x exn + 'd EmitResult) \<times> 'w) \<Rightarrow>
    (ref \<Rightarrow> 'o CompilerOptions \<Rightarrow> bool option \<Rightarrow> 't) \<Rightarrow>
    ('o, 'w) state \<Rightarrow> ref \<Rightarrow> ('o, 't) EmitArgs \<Rightarrow> ('x exn + 'd EmitResult) \<times> ('o, 'w) state" where
  "callEmitFiles invoke getTransformers st ts args =
     (case emitFiles st ts of
        None \<Rightarrow> (Inl TypeError, st)
      | Some (Native f) \<Rightarrow>
          (case invoke (Native f) args (setContents st) (world st) of
             (r, w') \<Rightarrow> (r, st\<lparr>world := w'\<rparr>))
      | Some (Patched clo) \<Rightarrow> emitFilesPatched invoke getTransformers clo st args)"

text \<open>
  A recording emitter, to count calls and to see their order: it does what \<open>invoke\<close>
  does and appends to a log kept beside the world the function called, the arguments,
  the contents of the \<open>Set\<close> objects at the time of the call, and the outcome.
\<close>

record ('o, 't, 'x, 'd) EmitCall =
  callee :: "'o EmitFilesFn"
  arguments :: "('o, 't) EmitArgs"
  setsSeen :: "ref \<Rightarrow> ref set"
  outcome :: "'x exn + 'd EmitResult"

definition recording :: "('o EmitFilesFn \<Rightarrow> ('o, 't) EmitArgs \<Rightarrow> (ref \<Rightarrow> ref set) \<Rightarrow> 'w \<Rightarrow>
      ('x exn + 'd EmitResult) \<times> 'w) \<Rightarrow>
    'o EmitFilesFn \<Rightarrow> ('o, 't) EmitArgs \<Rightarrow> (ref \<Rightarrow> ref set) \<Rightarrow>
    ('o, 't, 'x, 'd) EmitCall list \<times> 'w \<Rightarrow>
    ('x exn + 'd EmitResult) \<times> ('o, 't, 'x, 'd) EmitCall list \<times> 'w" where
  "recording invoke f a sets lw =
     (case invoke f a sets (snd lw) of
        (r, w') \<Rightarrow>
          (r, (fst lw @ [\<lparr>callee = f, arguments = a, setsSeen = sets, outcome = r\<rparr>], w')))"

text \<open>
  The compiler options that the loop of \<open>install\<close> stores for one element of
  \<open>moduleKindsToEmit\<close>: the object literal of lines 70-73 for a primary element, that
  of lines 75-82 for any other.
\<close>

definition derivedOptions :: "'o ParsedCommandLine \<Rightarrow> bool \<Rightarrow> ICachedEmitModuleKind \<Rightarrow>
    'o CompilerOptions" where
  "derivedOptions tsconfig useBuildCache moduleKindToEmit =
     (let outDir' = (if useBuildCache then cacheOutFolderPath moduleKindToEmit
                     else outFolderPath moduleKindToEmit)
      in if isPrimary moduleKindToEmit then (options tsconfig)\<lparr>outDir := Some outDir'\<rparr>
         else (options tsconfig)\<lparr>outDir := Some outDir',
                 module := Some (moduleKind moduleKindToEmit),
                 declarationEmit := Some False,
                 declarationMap := Some False\<rparr>)"

section \<open>Example inputs\<close>

text \<open>
  A project that emits CommonJS (its primary module kind) and ESNext; a state in which
  no patch is installed; an emitter that writes into the \<open>outDir\<close> it is given, reports
  that directory as its diagnostics, and skips the emit for ESNext; a second emitter
  that throws for ESNext; and variant lists with a duplicate module kind, with an empty
  output path, with two primaries and with none.
\<close>

definition exampleTsconfig :: "unit ParsedCommandLine" where
  "exampleTsconfig =
     \<lparr>options = \<lparr>outDir = Some ''lib'', module = Some CommonJS, declarationEmit = Some True,
                  declarationMap = Some True, otherOptions = ()\<rparr>,
      fileNames = [''index.ts'']\<rparr>"

definition exampleVariants :: "ICachedEmitModuleKind list" where
  "exampleVariants =
     [\<lparr>moduleKind = CommonJS, outFolderPath = ''/cjs'', cacheOutFolderPath = ''/cache/cjs'',
        isPrimary = True\<rparr>,
      \<lparr>moduleKind = ESNext, outFolderPath = ''/esm'', cacheOutFolderPath = ''/cache/esm'',
        isPrimary = False\<rparr>]"

definition exampleDuplicateVariants :: "ICachedEmitModuleKind list" where
  "exampleDuplicateVariants =
     [\<lparr>moduleKind = CommonJS, outFolderPath = ''/cjs'', cacheOutFolderPath = ''/cache/cjs'',
        isPrimary = True\<rparr>,
      \<lparr>moduleKind = CommonJS, outFolderPath = ''/cjs2'', cacheOutFolderPath = ''/cache/cjs2'',
        isPrimary = False\<rparr>]"

definition exampleEmptyPathVariants :: "ICachedEmitModuleKind list" where
  "exampleEmptyPathVariants =
     [\<lparr>moduleKind = CommonJS, outFolderPath = ''/cjs'', cacheOutFolderPath = ''/cache/cjs'',
        isPrimary = True\<rparr>,
      \<lparr>moduleKind = ESNext, outFolderPath = [], cacheOutFolderPath = ''/cache/esm'',
        isPrimary = False\<rparr>]"

definition exampleTwoPrimaries :: "ICachedEmitModuleKind list" where
  "exampleTwoPrimaries =
     [\<lparr>moduleKind = CommonJS, outFolderPath = ''/cjs'', cacheOutFolderPath = ''/cache/cjs'',
        isPrimary = True\<rparr>,
      \<lparr>moduleKind = ESNext, outFolderPath = ''/esm'', cacheOutFolderPath = ''/cache/esm'',
        isPrimary = True\<rparr>]"

definition exampleNoPrimary :: "ICachedEmitModuleKind list" where
  "exampleNoPrimary =
     [\<lparr>moduleKind = ESNext, outFolderPath = ''/esm'', cacheOutFolderPath = ''/cache/esm'',
        isPrimary = False\<rparr>]"

type_synonym exampleWorld =
  "(unit, ModuleKind option, unit, string) EmitCall list \<times> string list"

definition exampleState :: "(unit, exampleWorld) state" where
  "exampleState =
     \<lparr>patchedTs = None, baseEmitFiles = None, emitFiles = (\<lambda>_. Some (Native 2)),
      setContents = (\<lambda>_. {}), world = ([], [])\<rparr>"

definition exampleGetTransformers :: "ref \<Rightarrow> unit CompilerOptions \<Rightarrow> bool option \<Rightarrow> ModuleKind option" where
  "exampleGetTransformers ts compilerOptions dts = module compilerOptions"

definition exampleInvoke :: "unit EmitFilesFn \<Rightarrow> (unit, ModuleKind option) EmitArgs \<Rightarrow>
    (ref \<Rightarrow> ref set) \<Rightarrow> string list \<Rightarrow> (unit exn + string EmitResult) \<times> string list" where
  "exampleInvoke f a sets w =
     (case outDir (getCompilerOptions (host a)) of
        None \<Rightarrow> (Inl (Thrown ()), w)
      | Some d \<Rightarrow>
          (Inr \<lparr>emitSkipped = (emitTransformers a = Some ESNext), diagnostics = Some d,
                emittedFiles = Some [d]\<rparr>, w @ [d]))"

definition exampleThrowingInvoke :: "unit EmitFilesFn \<Rightarrow> (unit, ModuleKind option) EmitArgs \<Rightarrow>
    (ref \<Rightarrow> ref set) \<Rightarrow> string list \<Rightarrow> (unit exn + string EmitResult) \<times> string list" where
  "exampleThrowingInvoke f a sets w =
     (if module (getCompilerOptions (host a)) = Some ESNext then (Inl (Thrown ()), w)
      else exampleInvoke f a sets w)"

definition exampleArgs :: "(unit, ModuleKind option) EmitArgs" where
  "exampleArgs =
     \<lparr>resolver = 3, host = \<lparr>getCompilerOptions = options exampleTsconfig, hostMembers = 4\<rparr>,
      targetSourceFile = Some 5, emitTransformers = Some CommonJS,
      emitOnlyDtsFiles = None, onlyBuildInfo = None, forceDtsEmit = None\<rparr>"

definition examplePatched :: "(unit, exampleWorld) state" where
  "examplePatched =
     snd (install exampleState 7 exampleTsconfig exampleVariants False (Some 9)
            :: (unit exn + unit) \<times> _)"

section \<open>The loop of install\<close>

lemma installLoop_fail:
  "2 \<le> length (filter isPrimary ms) + (if fp then 1 else 0) \<Longrightarrow>
   installLoop tc ubc ms (fp, d, cm) = Inl (Error ''Multiple primary module emit kinds encountered.'')"
  by (induction ms arbitrary: fp d cm) (auto simp: Let_def split: if_splits)

lemma installLoop_ok:
  "length (filter isPrimary ms) + (if fp then 1 else 0) \<le> 1 \<Longrightarrow>
   \<exists>d' cm'. installLoop tc ubc ms (fp, d, cm) = Inr (fp \<or> (\<exists>m\<in>set ms. isPrimary m), d', cm')"
proof (induction ms arbitrary: fp d cm)
  case Nil
  then show ?case by simp
next
  case (Cons a ms)
  show ?case
  proof (cases "isPrimary a")
    case True
    with Cons.prems have nfp: "\<not> fp" and len: "length (filter isPrimary ms) + (if True then 1 else 0) \<le> 1"
      by (auto split: if_splits)
    from Cons.IH[OF len] show ?thesis using True nfp by (simp add: Let_def)
  next
    case False
    with Cons.prems have len: "length (filter isPrimary ms) + (if fp then 1 else 0) \<le> 1" by simp
    from Cons.IH[OF len] show ?thesis using False by (simp add: Let_def)
  qed
qed

lemma installLoop_map:
  "installLoop tc ubc ms (fp, d, cm) = Inr (fp', d', cm') \<Longrightarrow>
   map_of cm' m = (if m \<in> set ms then Some (derivedOptions tc ubc m) else map_of cm m)"
  by (induction ms arbitrary: fp d cm) (auto simp: Let_def update_conv' derivedOptions_def split: if_splits)

lemma installLoop_found:
  "installLoop tc ubc ms (True, d, cm) = Inr (fp', d', cm') \<Longrightarrow>
   d' = d \<and> (\<forall>m\<in>set ms. \<not> isPrimary m)"
  by (induction ms arbitrary: d cm) (auto simp: Let_def split: if_splits)

lemma installLoop_default:
  "installLoop tc ubc ms (fp, d, cm) = Inr (fp', d', cm') \<Longrightarrow>
   d' = (case filter isPrimary ms of [] \<Rightarrow> d | p # _ \<Rightarrow> Some (moduleKind p))"
proof (induction ms arbitrary: fp d cm)
  case Nil
  then show ?case by simp
next
  case (Cons a ms)
  show ?case
  proof (cases "isPrimary a")
    case True
    with Cons.prems show ?thesis
      by (auto simp: Let_def split: if_splits dest: installLoop_found)
  next
    case False
    with Cons.prems Cons.IH show ?thesis by (simp add: Let_def)
  qed
qed

lemma install_Inr:
  assumes "(install st ts tsconfig ms ubc cf :: ('x exn + unit) \<times> ('o, 'w) state) = (Inr (), st')"
  shows "\<exists>fp d cm. (installLoop tsconfig ubc ms (False, None, []) :: 'x exn + _) = Inr (fp, d, cm) \<and>
           patchedTs st = None \<and>
           st' = st\<lparr>patchedTs := Some ts, baseEmitFiles := emitFiles st ts,
                     emitFiles := (emitFiles st)(ts := Some (Patched
                       \<lparr>cl_ts = ts, cl_moduleKindsToEmit = ms, cl_compilerOptionsMap = cm,
                        cl_defaultModuleKind = d, cl_changedFiles = cf\<rparr>))\<rparr>"
  using assms by (auto simp: install_def Let_def split: if_splits sum.splits)

lemma install_ok:
  assumes "\<not> isInstalled st" and "length (filter isPrimary ms) \<le> 1"
  shows "\<exists>fp d cm. (installLoop tsconfig ubc ms (False, None, []) :: 'x exn + _) = Inr (fp, d, cm) \<and>
           (install st ts tsconfig ms ubc cf :: ('x exn + unit) \<times> _) =
             (Inr (), st\<lparr>patchedTs := Some ts, baseEmitFiles := emitFiles st ts,
                     emitFiles := (emitFiles st)(ts := Some (Patched
                       \<lparr>cl_ts = ts, cl_moduleKindsToEmit = ms, cl_compilerOptionsMap = cm,
                        cl_defaultModuleKind = d, cl_changedFiles = cf\<rparr>))\<rparr>)"
proof -
  from assms(2) obtain d cm where
    "(installLoop tsconfig ubc ms (False, None, []) :: 'x exn + _) =
       Inr (False \<or> (\<exists>m\<in>set ms. isPrimary m), d, cm)"
    using installLoop_ok [of ms False tsconfig ubc None "[]"] by auto
  with assms(1) show ?thesis by (simp add: install_def isInstalled_def Let_def)
qed

lemma install_multiple_primaries:
  assumes "\<not> isInstalled st" and "2 \<le> length (filter isPrimary ms)"
  shows "(install st ts tsconfig ms ubc cf :: ('x exn + unit) \<times> _) =
           (Inl (Error ''Multiple primary module emit kinds encountered.''),
            st\<lparr>patchedTs := Some ts, baseEmitFiles := emitFiles st ts\<rparr>)"
proof -
  from assms(2) have
    "(installLoop tsconfig ubc ms (False, None, []) :: 'x exn + _) =
       Inl (Error ''Multiple primary module emit kinds encountered.'')"
    using installLoop_fail [of ms False tsconfig ubc None "[]"] by auto
  with assms(1) show ?thesis by (simp add: install_def isInstalled_def Let_def)
qed

section \<open>The fan-out loop\<close>

lemma fanOut_Cons_Inr:
  assumes "fanOut invoke gt clo (Some f) args (m # ms) (d, sk) sets w = (Inr acc', w')"
  shows "\<exists>co r w1. map_of (cl_compilerOptionsMap clo) m = Some co \<and>
           outDir co \<noteq> None \<and> outDir co \<noteq> Some [] \<and>
           invoke f (flavorArgs gt (cl_ts clo) args co) sets w = (Inr r, w1) \<and>
           fanOut invoke gt clo (Some f) args ms
             (if Some (moduleKind m) = cl_defaultModuleKind clo then Some r else d,
              sk \<or> emitSkipped r) sets w1 = (Inr acc', w')"
  using assms by (auto split: option.splits if_splits prod.splits sum.splits)

lemma fanOut_no_base:
  "fanOut invoke gt clo None args (m # ms) acc sets w = (Inr acc', w') \<Longrightarrow> False"
  by (cases acc) (auto split: option.splits if_splits)

lemma fanOut_recording_Inr:
  assumes "fanOut (recording invoke) gt clo (Some f) args ms (d, sk) sets (log, w) =
             (Inr (d', sk'), lw')"
  shows "\<exists>rs. length rs = length ms \<and>
          fst lw' = log @ map (\<lambda>(m, r). \<lparr>callee = f, arguments = flavorArgs gt (cl_ts clo) args
                      (the (map_of (cl_compilerOptionsMap clo) m)), setsSeen = sets,
                      outcome = Inr r\<rparr>) (zip ms rs) \<and>
          (\<forall>m\<in>set ms. \<exists>co. map_of (cl_compilerOptionsMap clo) m = Some co \<and>
              outDir co \<noteq> None \<and> outDir co \<noteq> Some []) \<and>
          sk' = (sk \<or> (\<exists>r\<in>set rs. emitSkipped r)) \<and>
          (\<forall>i<length ms. Some (moduleKind (ms ! i)) = cl_defaultModuleKind clo \<and>
              (\<forall>j<length ms. i < j \<longrightarrow> Some (moduleKind (ms ! j)) \<noteq> cl_defaultModuleKind clo)
              \<longrightarrow> d' = Some (rs ! i)) \<and>
          ((\<forall>m\<in>set ms. Some (moduleKind m) \<noteq> cl_defaultModuleKind clo) \<longrightarrow> d' = d)"
  using assms
proof (induction ms arbitrary: d sk log w)
  case Nil
  then show ?case by auto
next
  case (Cons m ms)
  let ?dmk = "cl_defaultModuleKind clo"
  from fanOut_Cons_Inr [OF Cons.prems] obtain co r lw1 where
    co: "map_of (cl_compilerOptionsMap clo) m = Some co" "outDir co \<noteq> None" "outDir co \<noteq> Some []"
    and inv: "recording invoke f (flavorArgs gt (cl_ts clo) args co) sets (log, w) = (Inr r, lw1)"
    and rest: "fanOut (recording invoke) gt clo (Some f) args ms
             (if Some (moduleKind m) = ?dmk then Some r else d, sk \<or> emitSkipped r) sets lw1
             = (Inr (d', sk'), lw')"
    by blast
  let ?c = "\<lparr>callee = f, arguments = flavorArgs gt (cl_ts clo) args co, setsSeen = sets,
             outcome = Inr r\<rparr>"
  from inv obtain w1 where lw1: "lw1 = (log @ [?c], w1)"
    by (auto simp: recording_def split: prod.splits)
  let ?d1 = "if Some (moduleKind m) = ?dmk then Some r else d"
  from Cons.IH [OF rest [unfolded lw1]] obtain rs where
    len: "length rs = length ms"
    and lg: "fst lw' = (log @ [?c]) @
               map (\<lambda>(m, r). \<lparr>callee = f, arguments = flavorArgs gt (cl_ts clo) args
                      (the (map_of (cl_compilerOptionsMap clo) m)), setsSeen = sets,
                      outcome = Inr r\<rparr>) (zip ms rs)"
    and ok: "\<forall>m\<in>set ms. \<exists>co. map_of (cl_compilerOptionsMap clo) m = Some co \<and>
              outDir co \<noteq> None \<and> outDir co \<noteq> Some []"
    and sk: "sk' = ((sk \<or> emitSkipped r) \<or> (\<exists>r\<in>set rs. emitSkipped r))"
    and last: "\<forall>i<length ms. Some (moduleKind (ms ! i)) = ?dmk \<and>
              (\<forall>j<length ms. i < j \<longrightarrow> Some (moduleKind (ms ! j)) \<noteq> ?dmk)
              \<longrightarrow> d' = Some (rs ! i)"
    and none: "(\<forall>m\<in>set ms. Some (moduleKind m) \<noteq> ?dmk) \<longrightarrow> d' = ?d1"
    by blast
  have p1: "length (r # rs) = length (m # ms)" using len by simp
  have p2: "fst lw' = log @ map (\<lambda>(m, r). \<lparr>callee = f, arguments = flavorArgs gt (cl_ts clo) args
                      (the (map_of (cl_compilerOptionsMap clo) m)), setsSeen = sets,
                      outcome = Inr r\<rparr>) (zip (m # ms) (r # rs))"
    using lg co by simp
  have p3: "\<forall>x\<in>set (m # ms). \<exists>co. map_of (cl_compilerOptionsMap clo) x = Some co \<and>
              outDir co \<noteq> None \<and> outDir co \<noteq> Some []"
    using ok co by simp
  have p4: "sk' = (sk \<or> (\<exists>x\<in>set (r # rs). emitSkipped x))" using sk by auto
  have p5: "\<forall>i<length (m # ms). Some (moduleKind ((m # ms) ! i)) = ?dmk \<and>
              (\<forall>j<length (m # ms). i < j \<longrightarrow> Some (moduleKind ((m # ms) ! j)) \<noteq> ?dmk)
              \<longrightarrow> d' = Some ((r # rs) ! i)"
  proof (intro allI impI)
    fix i
    assume i: "i < length (m # ms)"
      and h: "Some (moduleKind ((m # ms) ! i)) = ?dmk \<and>
              (\<forall>j<length (m # ms). i < j \<longrightarrow> Some (moduleKind ((m # ms) ! j)) \<noteq> ?dmk)"
    show "d' = Some ((r # rs) ! i)"
    proof (cases i)
      case 0
      with h have m: "Some (moduleKind m) = ?dmk" by simp
      have "\<forall>x\<in>set ms. Some (moduleKind x) \<noteq> ?dmk"
      proof
        fix x assume "x \<in> set ms"
        then obtain k where k: "k < length ms" "ms ! k = x" by (auto simp: in_set_conv_nth)
        from h 0 k(1) have "Some (moduleKind ((m # ms) ! Suc k)) \<noteq> ?dmk" by auto
        with k(2) show "Some (moduleKind x) \<noteq> ?dmk" by simp
      qed
      with none m 0 show ?thesis by simp
    next
      case (Suc i')
      with i have i': "i' < length ms" by simp
      from h Suc have a: "Some (moduleKind (ms ! i')) = ?dmk" by simp
      have b: "\<forall>j<length ms. i' < j \<longrightarrow> Some (moduleKind (ms ! j)) \<noteq> ?dmk"
      proof (intro allI impI)
        fix j assume j: "j < length ms" "i' < j"
        with h Suc have "Some (moduleKind ((m # ms) ! Suc j)) \<noteq> ?dmk" by auto
        then show "Some (moduleKind (ms ! j)) \<noteq> ?dmk" by simp
      qed
      from last i' a b have "d' = Some (rs ! i')" by blast
      with Suc show ?thesis by simp
    qed
  qed
  have p6: "(\<forall>x\<in>set (m # ms). Some (moduleKind x) \<noteq> ?dmk) \<longrightarrow> d' = d"
    using none by auto
  from p1 p2 p3 p4 p5 p6 show ?case by blast
qed

lemma fanOut_recording_bad:
  assumes good: "\<forall>x\<in>set pre. \<exists>co. map_of (cl_compilerOptionsMap clo) x = Some co \<and>
                   outDir co \<noteq> None \<and> outDir co \<noteq> Some []"
    and bad: "map_of (cl_compilerOptionsMap clo) m = Some co" "outDir co = Some []"
  shows "\<exists>e calls w'.
           fanOut (recording invoke) gt clo (Some f) args (pre @ m # post) (d, sk) sets
               (log, w) = (Inl e, (log @ calls, w')) \<and>
           length calls \<le> length pre \<and>
           (\<forall>i<length calls. callee (calls ! i) = f \<and>
              arguments (calls ! i) = flavorArgs gt (cl_ts clo) args
                (the (map_of (cl_compilerOptionsMap clo) (pre ! i)))) \<and>
           (e = InternalError ''Expected compilerOptions.outDir to be assigned'' \<and>
              length calls = length pre \<and> (\<forall>c\<in>set calls. \<exists>r. outcome c = Inr r)
            \<or> calls \<noteq> [] \<and> outcome (last calls) = Inl e)"
  using good
proof (induction pre arbitrary: d sk log w)
  case Nil
  have "fanOut (recording invoke) gt clo (Some f) args ([] @ m # post) (d, sk) sets (log, w) =
          (Inl (InternalError ''Expected compilerOptions.outDir to be assigned''), (log @ [], w))"
    using bad by simp
  then show ?case
    by (intro exI [of _ "InternalError ''Expected compilerOptions.outDir to be assigned''"]
          exI [of _ "[]"] exI [of _ w]) simp
next
  case (Cons x pre)
  from Cons.prems obtain cx where
    cx: "map_of (cl_compilerOptionsMap clo) x = Some cx" "outDir cx \<noteq> None" "outDir cx \<noteq> Some []"
    by auto
  from Cons.prems have good': "\<forall>x\<in>set pre. \<exists>co. map_of (cl_compilerOptionsMap clo) x = Some co \<and>
                   outDir co \<noteq> None \<and> outDir co \<noteq> Some []"
    by simp
  let ?a = "flavorArgs gt (cl_ts clo) args cx"
  obtain o1 w1 where inv: "invoke f ?a sets w = (o1, w1)" by (cases "invoke f ?a sets w")
  let ?c = "\<lparr>callee = f, arguments = ?a, setsSeen = sets, outcome = o1\<rparr>"
  from inv have rec: "recording invoke f ?a sets (log, w) = (o1, (log @ [?c], w1))"
    by (simp add: recording_def)
  show ?case
  proof (cases o1)
    case (Inl e)
    have "fanOut (recording invoke) gt clo (Some f) args ((x # pre) @ m # post) (d, sk) sets
            (log, w) = (Inl e, (log @ [?c], w1))"
      using cx rec Inl by simp
    then show ?thesis using Inl cx
      by (intro exI [of _ e] exI [of _ "[?c]"] exI [of _ w1]) simp
  next
    case (Inr r)
    let ?d1 = "if Some (moduleKind x) = cl_defaultModuleKind clo then Some r else d"
    from Cons.IH [OF good', of ?d1 "sk \<or> emitSkipped r" "log @ [?c]" w1]
    obtain e calls w' where
      fo: "fanOut (recording invoke) gt clo (Some f) args (pre @ m # post) (?d1, sk \<or> emitSkipped r)
             sets (log @ [?c], w1) = (Inl e, ((log @ [?c]) @ calls, w'))"
      and len: "length calls \<le> length pre"
      and arg: "\<forall>i<length calls. callee (calls ! i) = f \<and>
              arguments (calls ! i) = flavorArgs gt (cl_ts clo) args
                (the (map_of (cl_compilerOptionsMap clo) (pre ! i)))"
      and dis: "e = InternalError ''Expected compilerOptions.outDir to be assigned'' \<and>
              length calls = length pre \<and> (\<forall>c\<in>set calls. \<exists>r. outcome c = Inr r)
            \<or> calls \<noteq> [] \<and> outcome (last calls) = Inl e"
      by blast
    let ?calls = "?c # calls"
    have a: "fanOut (recording invoke) gt clo (Some f) args ((x # pre) @ m # post) (d, sk) sets
            (log, w) = (Inl e, (log @ ?calls, w'))"
      using cx rec Inr fo by simp
    have b: "length ?calls \<le> length (x # pre)" using len by simp
    have b': "\<forall>i<length ?calls. callee (?calls ! i) = f \<and>
              arguments (?calls ! i) = flavorArgs gt (cl_ts clo) args
                (the (map_of (cl_compilerOptionsMap clo) ((x # pre) ! i)))"
    proof (intro allI impI)
      fix i assume i: "i < length ?calls"
      show "callee (?calls ! i) = f \<and>
              arguments (?calls ! i) = flavorArgs gt (cl_ts clo) args
                (the (map_of (cl_compilerOptionsMap clo) ((x # pre) ! i)))"
      proof (cases i)
        case 0
        then show ?thesis using cx by simp
      next
        case (Suc j)
        with i have "j < length calls" by simp
        with arg Suc show ?thesis by simp
      qed
    qed
    have c: "e = InternalError ''Expected compilerOptions.outDir to be assigned'' \<and>
              length ?calls = length (x # pre) \<and> (\<forall>c\<in>set ?calls. \<exists>r. outcome c = Inr r)
            \<or> ?calls \<noteq> [] \<and> outcome (last ?calls) = Inl e"
      using dis Inr by auto
    show ?thesis
      by (rule exI [of _ e], rule exI [of _ ?calls], rule exI [of _ w'])
        (insert a b b' c, intro conjI, assumption+)
  qed
qed

lemma fanOut_recording_sets:
  "fanOut (recording invoke) gt clo base args ms (d, sk) sets (log, w) = (r, lw') \<Longrightarrow>
   \<exists>calls. fst lw' = log @ calls \<and> (\<forall>c\<in>set calls. setsSeen c = sets)"
proof (induction ms arbitrary: d sk log w)
  case Nil
  then show ?case by auto
next
  case (Cons m ms)
  show ?case
  proof (cases "map_of (cl_compilerOptionsMap clo) m")
    case None
    with Cons.prems show ?thesis by auto
  next
    case (Some co)
    show ?thesis
    proof (cases "outDir co = None \<or> outDir co = Some [] \<or> base = None")
      case True
      with Cons.prems Some show ?thesis by (auto split: option.splits if_splits)
    next
      case False
      then obtain f where f: "base = Some f" and od: "outDir co \<noteq> None" "outDir co \<noteq> Some []"
        by auto
      let ?a = "flavorArgs gt (cl_ts clo) args co"
      obtain o1 w1 where inv: "invoke f ?a sets w = (o1, w1)" by (cases "invoke f ?a sets w")
      let ?c = "\<lparr>callee = f, arguments = ?a, setsSeen = sets, outcome = o1\<rparr>"
      have rec: "recording invoke f ?a sets (log, w) = (o1, (log @ [?c], w1))"
        using inv by (simp add: recording_def)
      show ?thesis
      proof (cases o1)
        case (Inl e)
        with Cons.prems Some f od rec have "lw' = (log @ [?c], w1)" by simp
        then have "fst lw' = log @ [?c] \<and> (\<forall>c\<in>set [?c]. setsSeen c = sets)" by simp
        then show ?thesis by blast
      next
        case (Inr res)
        with Cons.prems Some f od rec have
          "fanOut (recording invoke) gt clo base args ms
             (if Some (moduleKind m) = cl_defaultModuleKind clo then Some res else d,
              sk \<or> emitSkipped res) sets (log @ [?c], w1) = (r, lw')"
          by simp
        from Cons.IH [OF this] obtain calls where
          "fst lw' = (log @ [?c]) @ calls" "\<forall>c\<in>set calls. setsSeen c = sets"
          by blast
        then have "fst lw' = log @ (?c # calls) \<and> (\<forall>c\<in>set (?c # calls). setsSeen c = sets)"
          by simp
        then show ?thesis by blast
      qed
    qed
  qed
qed

lemma emitFilesPatched_normal_Inr:
  assumes "emitFilesPatched invoke gt clo st args = (Inr res, st'')"
    and "\<not> truthy (onlyBuildInfo args)" "\<not> truthy (emitOnlyDtsFiles args)"
  shows "\<exists>dres sk w'. fanOut invoke gt clo (baseEmitFiles st) args (cl_moduleKindsToEmit clo)
            (None, False) (setContents st'') (world st) = (Inr (dres, sk), w') \<and>
           res = spreadResult dres sk \<and> world st'' = w'"
  using assms
  by (auto simp: emitFilesPatched_def Let_def split: option.splits prod.splits sum.splits)

lemma emitFilesPatched_fields:
  "patchedTs (snd (emitFilesPatched invoke gt clo st args)) = patchedTs st"
  "baseEmitFiles (snd (emitFilesPatched invoke gt clo st args)) = baseEmitFiles st"
  "emitFiles (snd (emitFilesPatched invoke gt clo st args)) = emitFiles st"
  by (auto simp: emitFilesPatched_def Let_def split: option.splits prod.splits sum.splits)

lemma emitFilesPatched_sink:
  "setContents (snd (emitFilesPatched invoke gt clo st args)) =
     (if truthy (onlyBuildInfo args) \<or> truthy (emitOnlyDtsFiles args) then setContents st
      else case (targetSourceFile args, cl_changedFiles clo) of
             (Some sf, Some cf) \<Rightarrow> (setContents st)(cf := insert sf (setContents st cf))
           | _ \<Rightarrow> setContents st)"
  by (auto simp: emitFilesPatched_def Let_def split: option.splits prod.splits sum.splits)

section \<open>The examples, evaluated\<close>

lemmas example_defs = exampleState_def exampleVariants_def exampleTsconfig_def exampleArgs_def
  exampleInvoke_def exampleGetTransformers_def exampleThrowingInvoke_def

lemma examplePatched_install:
  "(install exampleState 7 exampleTsconfig exampleVariants False (Some 9)
      :: (unit exn + unit) \<times> _) = (Inr (), examplePatched)"
  by (simp add: examplePatched_def install_def exampleState_def exampleVariants_def Let_def)

lemma examplePatched_eq:
  "examplePatched =
     \<lparr>patchedTs = Some 7, baseEmitFiles = Some (Native 2),
      emitFiles = (\<lambda>_. Some (Native 2))(7 := Some (Patched
         \<lparr>cl_ts = 7, cl_moduleKindsToEmit = exampleVariants,
          cl_compilerOptionsMap =
            [(exampleVariants ! 0, (options exampleTsconfig)\<lparr>outDir := Some ''/cjs''\<rparr>),
             (exampleVariants ! 1, (options exampleTsconfig)\<lparr>outDir := Some ''/esm'',
                module := Some ESNext, declarationEmit := Some False,
                declarationMap := Some False\<rparr>)],
          cl_defaultModuleKind = Some CommonJS, cl_changedFiles = Some 9\<rparr>)),
      setContents = (\<lambda>_. {}), world = ([], [])\<rparr>"
  by (simp add: examplePatched_def install_def exampleState_def exampleVariants_def Let_def)

lemma example_call:
  "callEmitFiles (recording exampleInvoke) exampleGetTransformers examplePatched 7 exampleArgs =
     (Inr \<lparr>emitSkipped = True, diagnostics = Some ''/cjs'', emittedFiles = Some [''/cjs'']\<rparr>,
      examplePatched\<lparr>setContents := (\<lambda>_. {})(9 := {5}),
        world :=
          ([\<lparr>callee = Native 2,
              arguments = flavorArgs exampleGetTransformers 7 exampleArgs
                ((options exampleTsconfig)\<lparr>outDir := Some ''/cjs''\<rparr>),
              setsSeen = (\<lambda>_. {})(9 := {5}),
              outcome = Inr \<lparr>emitSkipped = False, diagnostics = Some ''/cjs'',
                             emittedFiles = Some [''/cjs'']\<rparr>\<rparr>,
            \<lparr>callee = Native 2,
              arguments = flavorArgs exampleGetTransformers 7 exampleArgs
                ((options exampleTsconfig)\<lparr>outDir := Some ''/esm'', module := Some ESNext,
                   declarationEmit := Some False, declarationMap := Some False\<rparr>),
              setsSeen = (\<lambda>_. {})(9 := {5}),
              outcome = Inr \<lparr>emitSkipped = True, diagnostics = Some ''/esm'',
                             emittedFiles = Some [''/esm'']\<rparr>\<rparr>],
           [''/cjs'', ''/esm''])\<rparr>)"
  by (simp add: callEmitFiles_def examplePatched_eq emitFilesPatched_def Let_def truthy_def
      recording_def flavorArgs_def spreadResult_def example_defs)

lemma example_call_throwing:
  "callEmitFiles (recording exampleThrowingInvoke) exampleGetTransformers examplePatched 7 exampleArgs =
     (Inl (Thrown ()),
      examplePatched\<lparr>setContents := (\<lambda>_. {})(9 := {5}),
        world :=
          ([\<lparr>callee = Native 2,
              arguments = flavorArgs exampleGetTransformers 7 exampleArgs
                ((options exampleTsconfig)\<lparr>outDir := Some ''/cjs''\<rparr>),
              setsSeen = (\<lambda>_. {})(9 := {5}),
              outcome = Inr \<lparr>emitSkipped = False, diagnostics = Some ''/cjs'',
                             emittedFiles = Some [''/cjs'']\<rparr>\<rparr>,
            \<lparr>callee = Native 2,
              arguments = flavorArgs exampleGetTransformers 7 exampleArgs
                ((options exampleTsconfig)\<lparr>outDir := Some ''/esm'', module := Some ESNext,
                   declarationEmit := Some False, declarationMap := Some False\<rparr>),
              setsSeen = (\<lambda>_. {})(9 := {5}),
              outcome = Inl (Thrown ())\<rparr>],
           [''/cjs''])\<rparr>)"
  by (simp add: callEmitFiles_def examplePatched_eq emitFilesPatched_def Let_def truthy_def
      recording_def flavorArgs_def spreadResult_def example_defs)

section \<open>Aggregation of the per-variant results\<close>

text \<open>
  C1. Take a variant list with exactly one primary and pairwise different module kinds,
  installed successfully, and a call of the patched \<open>ts.emitFiles\<close> with neither
  \<open>onlyBuildInfo\<close> nor \<open>emitOnlyDtsFiles\<close> set that returns a result \<open>res\<close>. Then the
  original emitter \<open>f\<close> was called once per variant, in list order, each time with the
  variant's entry of \<open>compilerOptionsMap\<close> as the host's compiler options, and returned
  the results \<open>rs\<close>; \<open>emitSkipped res\<close> is the disjunction of the \<open>emitSkipped\<close> of all
  of \<open>rs\<close>; and \<open>res\<close> agrees in every other field with the result \<open>rs ! i\<close> of the
  variant whose module kind is the primary variant's.
\<close>

theorem fan_out_result:
  assumes inst: "(install st ts tsconfig moduleKindsToEmit useBuildCache changedFiles
              :: ('x exn + unit) \<times> _) = (Inr (), st')"
    and one: "length (filter isPrimary moduleKindsToEmit) = 1"
    and dist: "distinct (map moduleKind moduleKindsToEmit)"
    and normal: "\<not> truthy (onlyBuildInfo args)" "\<not> truthy (emitOnlyDtsFiles args)"
    and ret: "callEmitFiles (recording invoke) getTransformers st' ts args = (Inr res, st'')"
  shows "\<exists>f clo cos rs.
           emitFiles st ts = Some f \<and> emitFiles st' ts = Some (Patched clo) \<and>
           length rs = length moduleKindsToEmit \<and>
           map (map_of (cl_compilerOptionsMap clo)) moduleKindsToEmit = map Some cos \<and>
           fst (world st'') = fst (world st') @
             map (\<lambda>(co, r). \<lparr>callee = f, arguments = flavorArgs getTransformers ts args co,
                    setsSeen = setContents st'', outcome = Inr r\<rparr>) (zip cos rs) \<and>
           emitSkipped res = (\<exists>r\<in>set rs. emitSkipped r) \<and>
           (\<forall>i<length moduleKindsToEmit. \<forall>p\<in>set moduleKindsToEmit.
              isPrimary p \<and> moduleKind (moduleKindsToEmit ! i) = moduleKind p \<longrightarrow>
              res = (rs ! i)\<lparr>emitSkipped := emitSkipped res\<rparr>)"
proof -
  let ?ms = moduleKindsToEmit
  from install_Inr [OF inst] obtain fp d cm where
    loop: "(installLoop tsconfig useBuildCache ?ms (False, None, []) :: 'x exn + _) = Inr (fp, d, cm)"
    and st': "st' = st\<lparr>patchedTs := Some ts, baseEmitFiles := emitFiles st ts,
                     emitFiles := (emitFiles st)(ts := Some (Patched
                       \<lparr>cl_ts = ts, cl_moduleKindsToEmit = ?ms,
                        cl_compilerOptionsMap = cm,
                        cl_defaultModuleKind = d, cl_changedFiles = changedFiles\<rparr>))\<rparr>"
    by blast
  let ?clo = "\<lparr>cl_ts = ts, cl_moduleKindsToEmit = ?ms, cl_compilerOptionsMap = cm,
               cl_defaultModuleKind = d, cl_changedFiles = changedFiles\<rparr>"
  from one obtain p where fp: "filter isPrimary ?ms = [p]"
    by (cases "filter isPrimary ?ms") auto
  then have pin: "p \<in> set (filter isPrimary ?ms)" by simp
  from installLoop_default [OF loop] fp have d: "d = Some (moduleKind p)" by simp
  from pin obtain m0 ms0 where ne: "?ms = m0 # ms0" by (cases ?ms) auto
  have e: "emitFiles st' ts = Some (Patched ?clo)" by (simp add: st')
  from ret e have "emitFilesPatched (recording invoke) getTransformers ?clo st' args = (Inr res, st'')"
    by (simp add: callEmitFiles_def)
  from emitFilesPatched_normal_Inr [OF this normal] obtain dres sk where
    fo: "fanOut (recording invoke) getTransformers ?clo (baseEmitFiles st') args ?ms
            (None, False) (setContents st'') (world st') = (Inr (dres, sk), world st'')"
    and res: "res = spreadResult dres sk"
    by auto
  have b: "baseEmitFiles st' = emitFiles st ts" by (simp add: st')
  obtain f where f: "emitFiles st ts = Some f"
  proof (cases "emitFiles st ts")
    case None
    from fanOut_no_base [OF fo [unfolded b None ne]] show ?thesis by simp
  next
    case (Some g)
    then show ?thesis using that by blast
  qed
  from fo have fo': "fanOut (recording invoke) getTransformers ?clo (Some f) args ?ms
            (None, False) (setContents st'') (fst (world st'), snd (world st')) =
              (Inr (dres, sk), world st'')"
    by (simp add: b f)
  from fanOut_recording_Inr [OF fo'] obtain rs where
    len: "length rs = length ?ms"
    and lg: "fst (world st'') = fst (world st') @
               map (\<lambda>(m, r). \<lparr>callee = f, arguments = flavorArgs getTransformers ts args
                      (the (map_of cm m)), setsSeen = setContents st'', outcome = Inr r\<rparr>) (zip ?ms rs)"
    and ok: "\<forall>m\<in>set ?ms. \<exists>co. map_of cm m = Some co \<and> outDir co \<noteq> None \<and> outDir co \<noteq> Some []"
    and sk: "sk = (\<exists>r\<in>set rs. emitSkipped r)"
    and last: "\<forall>i<length ?ms. Some (moduleKind (?ms ! i)) = d \<and>
              (\<forall>j<length ?ms. i < j \<longrightarrow> Some (moduleKind (?ms ! j)) \<noteq> d)
              \<longrightarrow> dres = Some (rs ! i)"
    by auto
  let ?cos = "map (\<lambda>m. the (map_of cm m)) ?ms"
  have c1: "map (map_of (cl_compilerOptionsMap ?clo)) ?ms = map Some ?cos"
    using ok by auto
  have c2: "fst (world st'') = fst (world st') @
             map (\<lambda>(co, r). \<lparr>callee = f, arguments = flavorArgs getTransformers ts args co,
                    setsSeen = setContents st'', outcome = Inr r\<rparr>) (zip ?cos rs)"
    by (simp add: lg zip_map1 case_prod_unfold)
  have c3: "emitSkipped res = (\<exists>r\<in>set rs. emitSkipped r)"
    using res sk by (simp add: spreadResult_def split: option.splits)
  have c4: "\<forall>i<length ?ms. \<forall>q\<in>set ?ms.
              isPrimary q \<and> moduleKind (?ms ! i) = moduleKind q \<longrightarrow>
              res = (rs ! i)\<lparr>emitSkipped := emitSkipped res\<rparr>"
  proof (intro allI impI ballI)
    fix i q
    assume i: "i < length ?ms" and q: "q \<in> set ?ms"
      and h: "isPrimary q \<and> moduleKind (?ms ! i) = moduleKind q"
    from q h have "q \<in> set (filter isPrimary ?ms)" by simp
    with fp have "q = p" by simp
    with h d have a: "Some (moduleKind (?ms ! i)) = d" by simp
    have "\<forall>j<length ?ms. i < j \<longrightarrow> Some (moduleKind (?ms ! j)) \<noteq> d"
    proof (intro allI impI)
      fix j assume j: "j < length ?ms" "i < j"
      with i have "j < length (map moduleKind ?ms)" "i < length (map moduleKind ?ms)" "j \<noteq> i"
        by simp_all
      with dist have "map moduleKind ?ms ! j \<noteq> map moduleKind ?ms ! i"
        by (simp only: nth_eq_iff_index_eq not_False_eq_True)
      with i j a show "Some (moduleKind (?ms ! j)) \<noteq> d" by auto
    qed
    with last i a have "dres = Some (rs ! i)" by blast
    with res show "res = (rs ! i)\<lparr>emitSkipped := emitSkipped res\<rparr>"
      by (simp add: spreadResult_def)
  qed
  from f e len c1 c2 c3 c4 show ?thesis by blast
qed

theorem fan_out_result_witness:
  "(install exampleState 7 exampleTsconfig exampleVariants False (Some 9)
      :: (unit exn + unit) \<times> _) = (Inr (), examplePatched) \<and>
   length (filter isPrimary exampleVariants) = 1 \<and>
   distinct (map moduleKind exampleVariants) \<and>
   \<not> truthy (onlyBuildInfo exampleArgs) \<and> \<not> truthy (emitOnlyDtsFiles exampleArgs) \<and>
   fst (callEmitFiles (recording exampleInvoke) exampleGetTransformers examplePatched 7 exampleArgs) =
     Inr \<lparr>emitSkipped = True, diagnostics = Some ''/cjs'', emittedFiles = Some [''/cjs'']\<rparr> \<and>
   (\<exists>f clo cos rs.
      emitFiles exampleState 7 = Some f \<and> emitFiles examplePatched 7 = Some (Patched clo) \<and>
      length rs = length exampleVariants \<and>
      map (map_of (cl_compilerOptionsMap clo)) exampleVariants = map Some cos \<and>
      fst (world (snd (callEmitFiles (recording exampleInvoke) exampleGetTransformers
                         examplePatched 7 exampleArgs))) =
        fst (world examplePatched) @
          map (\<lambda>(co, r). \<lparr>callee = f, arguments = flavorArgs exampleGetTransformers 7 exampleArgs co,
                 setsSeen = setContents (snd (callEmitFiles (recording exampleInvoke)
                              exampleGetTransformers examplePatched 7 exampleArgs)),
                 outcome = Inr r\<rparr>) (zip cos rs) \<and>
      emitSkipped \<lparr>emitSkipped = True, diagnostics = Some ''/cjs'',
                   emittedFiles = Some [''/cjs'']\<rparr> = (\<exists>r\<in>set rs. emitSkipped r) \<and>
      (\<forall>i<length exampleVariants. \<forall>p\<in>set exampleVariants.
         isPrimary p \<and> moduleKind (exampleVariants ! i) = moduleKind p \<longrightarrow>
         \<lparr>emitSkipped = True, diagnostics = Some ''/cjs'', emittedFiles = Some [''/cjs'']\<rparr> =
           (rs ! i)\<lparr>emitSkipped := emitSkipped \<lparr>emitSkipped = True, diagnostics = Some ''/cjs'',
                                                emittedFiles = Some [''/cjs'']\<rparr>\<rparr>))"
proof -
  have one: "length (filter isPrimary exampleVariants) = 1" by (simp add: exampleVariants_def)
  have dist: "distinct (map moduleKind exampleVariants)" by (simp add: exampleVariants_def)
  have n1: "\<not> truthy (onlyBuildInfo exampleArgs)" by (simp add: truthy_def exampleArgs_def)
  have n2: "\<not> truthy (emitOnlyDtsFiles exampleArgs)" by (simp add: truthy_def exampleArgs_def)
  have r: "fst (callEmitFiles (recording exampleInvoke) exampleGetTransformers examplePatched 7 exampleArgs) =
     Inr \<lparr>emitSkipped = True, diagnostics = Some ''/cjs'', emittedFiles = Some [''/cjs'']\<rparr>"
    by (simp add: example_call)
  then have ret: "callEmitFiles (recording exampleInvoke) exampleGetTransformers examplePatched 7 exampleArgs =
     (Inr \<lparr>emitSkipped = True, diagnostics = Some ''/cjs'', emittedFiles = Some [''/cjs'']\<rparr>,
      snd (callEmitFiles (recording exampleInvoke) exampleGetTransformers examplePatched 7 exampleArgs))"
    by (simp add: prod_eq_iff)
  from fan_out_result [OF examplePatched_install one dist n1 n2 ret]
  show ?thesis using examplePatched_install one dist n1 n2 r by blast
qed

section \<open>Validation of the primary count\<close>

text \<open>
  C2. The claim asks \<open>install\<close> to fail for a list without a primary variant. The loop
  only throws when it meets a second primary; \<open>foundPrimary\<close> is not read after the
  loop. On the list \<open>exampleNoPrimary\<close>, and on the empty list, \<open>install\<close> returns
  normally and replaces \<open>ts.emitFiles\<close> by a patch whose \<open>defaultModuleKind\<close> is
  \<open>undefined\<close>; a normal call of that patch returns an object without diagnostics.
\<close>

theorem install_without_primary:
  "length (filter isPrimary exampleNoPrimary) = 0 \<and>
   (install exampleState 7 exampleTsconfig exampleNoPrimary False None
      :: (unit exn + unit) \<times> _) =
     (Inr (),
      exampleState\<lparr>patchedTs := Some 7, baseEmitFiles := Some (Native 2),
        emitFiles := (emitFiles exampleState)(7 := Some (Patched
          \<lparr>cl_ts = 7, cl_moduleKindsToEmit = exampleNoPrimary,
           cl_compilerOptionsMap =
             [(exampleNoPrimary ! 0, (options exampleTsconfig)\<lparr>outDir := Some ''/esm'',
                 module := Some ESNext, declarationEmit := Some False,
                 declarationMap := Some False\<rparr>)],
           cl_defaultModuleKind = None, cl_changedFiles = None\<rparr>))\<rparr>) \<and>
   fst (install exampleState 7 exampleTsconfig [] False None :: (unit exn + unit) \<times> _) = Inr () \<and>
   fst (callEmitFiles (recording exampleInvoke) exampleGetTransformers
          (snd (install exampleState 7 exampleTsconfig exampleNoPrimary False None
                  :: (unit exn + unit) \<times> _)) 7 exampleArgs) =
     Inr \<lparr>emitSkipped = True, diagnostics = None, emittedFiles = None\<rparr>"
  by (simp add: install_def callEmitFiles_def emitFilesPatched_def Let_def truthy_def
      recording_def flavorArgs_def spreadResult_def exampleNoPrimary_def example_defs)

section \<open>Pass-through calls\<close>

text \<open>
  C3. After a successful \<open>install\<close> on a compiler whose \<open>emitFiles\<close> was \<open>f\<close>, a call of
  \<open>ts.emitFiles\<close> with \<open>onlyBuildInfo\<close> or \<open>emitOnlyDtsFiles\<close> set calls \<open>f\<close> exactly
  once, with the seven arguments as they were passed (the host included), returns what
  \<open>f\<close> returned or throws what it threw, and changes nothing else: the recording
  emitter's log grows by that one call.
\<close>

theorem pass_through:
  assumes inst: "(install st ts tsconfig moduleKindsToEmit useBuildCache changedFiles
              :: ('x exn + unit) \<times> _) = (Inr (), st')"
    and orig: "emitFiles st ts = Some f"
    and flag: "truthy (onlyBuildInfo args) \<or> truthy (emitOnlyDtsFiles args)"
  shows "callEmitFiles (recording invoke) getTransformers st' ts args =
           (fst (invoke f args (setContents st') (snd (world st'))),
            st'\<lparr>world :=
              (fst (world st') @
                 [\<lparr>callee = f, arguments = args, setsSeen = setContents st',
                   outcome = fst (invoke f args (setContents st') (snd (world st')))\<rparr>],
               snd (invoke f args (setContents st') (snd (world st'))))\<rparr>)"
proof -
  from install_Inr [OF inst] obtain d cm where
    st': "st' = st\<lparr>patchedTs := Some ts, baseEmitFiles := emitFiles st ts,
                     emitFiles := (emitFiles st)(ts := Some (Patched
                       \<lparr>cl_ts = ts, cl_moduleKindsToEmit = moduleKindsToEmit,
                        cl_compilerOptionsMap = cm,
                        cl_defaultModuleKind = d, cl_changedFiles = changedFiles\<rparr>))\<rparr>"
    by blast
  show ?thesis using flag orig
    by (auto simp: st' callEmitFiles_def emitFilesPatched_def recording_def split: prod.splits)
qed

theorem pass_through_witness:
  "(install exampleState 7 exampleTsconfig exampleVariants False (Some 9)
      :: (unit exn + unit) \<times> _) = (Inr (), examplePatched) \<and>
   emitFiles exampleState 7 = Some (Native 2) \<and>
   (truthy (onlyBuildInfo (exampleArgs\<lparr>emitOnlyDtsFiles := Some True\<rparr>)) \<or>
    truthy (emitOnlyDtsFiles (exampleArgs\<lparr>emitOnlyDtsFiles := Some True\<rparr>))) \<and>
   callEmitFiles (recording exampleInvoke) exampleGetTransformers examplePatched 7
       (exampleArgs\<lparr>emitOnlyDtsFiles := Some True\<rparr>) =
     (Inr \<lparr>emitSkipped = False, diagnostics = Some ''lib'', emittedFiles = Some [''lib'']\<rparr>,
      examplePatched\<lparr>world :=
        ([\<lparr>callee = Native 2, arguments = exampleArgs\<lparr>emitOnlyDtsFiles := Some True\<rparr>,
           setsSeen = (\<lambda>_. {}),
           outcome = Inr \<lparr>emitSkipped = False, diagnostics = Some ''lib'',
                          emittedFiles = Some [''lib'']\<rparr>\<rparr>],
         [''lib''])\<rparr>)"
proof -
  have b: "emitFiles exampleState 7 = Some (Native 2)" by (simp add: exampleState_def)
  have c: "truthy (onlyBuildInfo (exampleArgs\<lparr>emitOnlyDtsFiles := Some True\<rparr>)) \<or>
    truthy (emitOnlyDtsFiles (exampleArgs\<lparr>emitOnlyDtsFiles := Some True\<rparr>))"
    by (simp add: truthy_def)
  have w: "world examplePatched = ([], [])" by (simp add: examplePatched_eq)
  have s: "setContents examplePatched = (\<lambda>_. {})" by (simp add: examplePatched_eq)
  have i: "exampleInvoke (Native 2) (exampleArgs\<lparr>emitOnlyDtsFiles := Some True\<rparr>) (\<lambda>_. {}) [] =
     (Inr \<lparr>emitSkipped = False, diagnostics = Some ''lib'', emittedFiles = Some [''lib'']\<rparr>, [''lib''])"
    by (simp add: exampleInvoke_def exampleArgs_def exampleTsconfig_def)
  from pass_through [OF examplePatched_install b c, of exampleInvoke exampleGetTransformers]
  show ?thesis using examplePatched_install b c by (simp add: w s i)
qed

section \<open>Derived compiler options\<close>

text \<open>
  C4. After a successful \<open>install\<close>, the entry of \<open>compilerOptionsMap\<close> for every
  variant \<open>m\<close> of the list has \<open>outDir\<close> set to \<open>cacheOutFolderPath m\<close> when
  \<open>useBuildCache\<close> holds and to \<open>outFolderPath m\<close> otherwise. For a primary variant every
  other option is that of \<open>tsconfig.options\<close>; for any other variant \<open>module\<close> is the
  variant's module kind, \<open>declaration\<close> and \<open>declarationMap\<close> are \<open>false\<close>, and the
  remaining options are those of \<open>tsconfig.options\<close>.
\<close>

theorem derived_options:
  assumes "(install st ts tsconfig moduleKindsToEmit useBuildCache changedFiles
              :: ('x exn + unit) \<times> ('o, 'w) state) = (Inr (), st')"
    and "m \<in> set moduleKindsToEmit"
  shows "\<exists>clo co. emitFiles st' ts = Some (Patched clo) \<and>
           map_of (cl_compilerOptionsMap clo) m = Some co \<and>
           outDir co = Some (if useBuildCache then cacheOutFolderPath m else outFolderPath m) \<and>
           otherOptions co = otherOptions (options tsconfig) \<and>
           (if isPrimary m
            then module co = module (options tsconfig) \<and>
                 declarationEmit co = declarationEmit (options tsconfig) \<and>
                 declarationMap co = declarationMap (options tsconfig)
            else module co = Some (moduleKind m) \<and>
                 declarationEmit co = Some False \<and> declarationMap co = Some False)"
proof -
  from install_Inr [OF assms(1)] obtain fp d cm where
    loop: "(installLoop tsconfig useBuildCache moduleKindsToEmit (False, None, []) :: 'x exn + _)
             = Inr (fp, d, cm)"
    and st': "st' = st\<lparr>patchedTs := Some ts, baseEmitFiles := emitFiles st ts,
                     emitFiles := (emitFiles st)(ts := Some (Patched
                       \<lparr>cl_ts = ts, cl_moduleKindsToEmit = moduleKindsToEmit,
                        cl_compilerOptionsMap = cm,
                        cl_defaultModuleKind = d, cl_changedFiles = changedFiles\<rparr>))\<rparr>"
    by blast
  from installLoop_map [OF loop, of m] assms(2)
  have "map_of cm m = Some (derivedOptions tsconfig useBuildCache m)" by simp
  with st' show ?thesis by (simp add: derivedOptions_def Let_def)
qed

theorem derived_options_witness:
  "(install exampleState 7 exampleTsconfig exampleVariants False (Some 9)
      :: (unit exn + unit) \<times> _) = (Inr (), examplePatched) \<and>
   exampleVariants ! 0 \<in> set exampleVariants \<and> exampleVariants ! 1 \<in> set exampleVariants \<and>
   isPrimary (exampleVariants ! 0) \<and> \<not> isPrimary (exampleVariants ! 1) \<and>
   (\<exists>clo co. emitFiles examplePatched 7 = Some (Patched clo) \<and>
      map_of (cl_compilerOptionsMap clo) (exampleVariants ! 0) = Some co \<and>
      outDir co = Some ''/cjs'' \<and> otherOptions co = () \<and>
      module co = Some CommonJS \<and> declarationEmit co = Some True \<and>
      declarationMap co = Some True) \<and>
   (\<exists>clo co. emitFiles examplePatched 7 = Some (Patched clo) \<and>
      map_of (cl_compilerOptionsMap clo) (exampleVariants ! 1) = Some co \<and>
      outDir co = Some ''/esm'' \<and> otherOptions co = () \<and>
      module co = Some ESNext \<and> declarationEmit co = Some False \<and>
      declarationMap co = Some False)"
proof -
  have a: "exampleVariants ! 0 \<in> set exampleVariants" by (simp add: exampleVariants_def)
  have b: "exampleVariants ! 1 \<in> set exampleVariants" by (simp add: exampleVariants_def)
  have p: "isPrimary (exampleVariants ! 0)" "\<not> isPrimary (exampleVariants ! 1)"
    by (simp_all add: exampleVariants_def)
  from derived_options [OF examplePatched_install a] p(1)
  have A: "\<exists>clo co. emitFiles examplePatched 7 = Some (Patched clo) \<and>
      map_of (cl_compilerOptionsMap clo) (exampleVariants ! 0) = Some co \<and>
      outDir co = Some ''/cjs'' \<and> otherOptions co = () \<and>
      module co = Some CommonJS \<and> declarationEmit co = Some True \<and>
      declarationMap co = Some True"
    by (simp add: exampleVariants_def exampleTsconfig_def)
  from derived_options [OF examplePatched_install b] p(2)
  have B: "\<exists>clo co. emitFiles examplePatched 7 = Some (Patched clo) \<and>
      map_of (cl_compilerOptionsMap clo) (exampleVariants ! 1) = Some co \<and>
      outDir co = Some ''/esm'' \<and> otherOptions co = () \<and>
      module co = Some ESNext \<and> declarationEmit co = Some False \<and>
      declarationMap co = Some False"
    by (simp add: exampleVariants_def exampleTsconfig_def)
  from examplePatched_install a b p A B show ?thesis by (intro conjI)
qed

section \<open>A failing install\<close>

text \<open>
  C5. The claim asks that a failing \<open>install\<close> leave the state as it was. \<open>install\<close>
  assigns \<open>_patchedTs\<close> and \<open>_baseEmitFiles\<close> on lines 51-52, before the loop that
  throws on a second primary. On \<open>exampleTwoPrimaries\<close>, from a state without a patch,
  it throws and leaves both fields set: \<open>isInstalled\<close> is true although
  \<open>ts.emitFiles\<close> was not replaced, and the next \<open>install\<close> fails.
\<close>

theorem failed_install_leaves_patch_state:
  "\<not> isInstalled exampleState \<and> baseEmitFiles exampleState = None \<and>
   (install exampleState 7 exampleTsconfig exampleTwoPrimaries False None
      :: (unit exn + unit) \<times> _) =
     (Inl (Error ''Multiple primary module emit kinds encountered.''),
      exampleState\<lparr>patchedTs := Some 7, baseEmitFiles := Some (Native 2)\<rparr>) \<and>
   isInstalled (snd (install exampleState 7 exampleTsconfig exampleTwoPrimaries False None
                       :: (unit exn + unit) \<times> _)) \<and>
   (install (snd (install exampleState 7 exampleTsconfig exampleTwoPrimaries False None
                    :: (unit exn + unit) \<times> _)) 7 exampleTsconfig exampleVariants False None
      :: (unit exn + unit) \<times> _) =
     (Inl (InternalError
        ''EmitFilesPatch.install() cannot be called without first uninstalling the existing patch''),
      exampleState\<lparr>patchedTs := Some 7, baseEmitFiles := Some (Native 2)\<rparr>)"
  by (simp add: install_def isInstalled_def Let_def exampleTwoPrimaries_def example_defs)

section \<open>install followed by uninstall\<close>

text \<open>
  C6. From a state without a patch and for a variant list with exactly one primary,
  \<open>install\<close> succeeds, \<open>uninstall\<close> on the same compiler object then succeeds, and
  afterwards \<open>ts.emitFiles\<close> is the value it had before \<open>install\<close>, \<open>isInstalled\<close> is
  false, and the whole state is the initial one with \<open>_baseEmitFiles\<close> undefined.
\<close>

theorem install_uninstall:
  assumes "\<not> isInstalled st" and "length (filter isPrimary moduleKindsToEmit) = 1"
  shows "\<exists>st'. (install st ts tsconfig moduleKindsToEmit useBuildCache changedFiles
                  :: ('x exn + unit) \<times> ('o, 'w) state) = (Inr (), st') \<and>
           (\<exists>st''. uninstall st' ts = (Inr (), st'') \<and>
              emitFiles st'' ts = emitFiles st ts \<and> \<not> isInstalled st'' \<and>
              st'' = st\<lparr>baseEmitFiles := None\<rparr>)"
proof -
  from assms(2) obtain d cm where
    "installLoop tsconfig useBuildCache moduleKindsToEmit (False, None, []) =
       (Inr (False \<or> (\<exists>m\<in>set moduleKindsToEmit. isPrimary m), d, cm) :: 'x exn + _)"
    using installLoop_ok [of moduleKindsToEmit False tsconfig useBuildCache None "[]"] by auto
  with assms(1) show ?thesis
    by (simp add: install_def uninstall_def isInstalled_def Let_def)
qed

theorem install_uninstall_witness:
  "\<not> isInstalled exampleState \<and> length (filter isPrimary exampleVariants) = 1 \<and>
   (\<exists>st'. (install exampleState 7 exampleTsconfig exampleVariants False None
            :: (unit exn + unit) \<times> _) = (Inr (), st') \<and>
      (\<exists>st''. (uninstall st' 7 :: (unit exn + unit) \<times> _) = (Inr (), st'') \<and>
         emitFiles st'' 7 = emitFiles exampleState 7 \<and> \<not> isInstalled st'' \<and>
         st'' = exampleState\<lparr>baseEmitFiles := None\<rparr>))"
proof -
  have a: "\<not> isInstalled exampleState" by (simp add: isInstalled_def exampleState_def)
  have b: "length (filter isPrimary exampleVariants) = 1" by (simp add: exampleVariants_def)
  from a b install_uninstall [OF a b, of 7 exampleTsconfig False None] show ?thesis by blast
qed

section \<open>install while a patch is installed\<close>

text \<open>
  C7. While a patch is installed, \<open>install\<close> throws the internal error that asks for
  an \<open>uninstall\<close> first, whatever its arguments, and leaves the whole state (the
  patched \<open>ts.emitFiles\<close>, \<open>_baseEmitFiles\<close>, \<open>_patchedTs\<close>) unchanged.
\<close>

theorem install_while_installed:
  "isInstalled st \<Longrightarrow>
   install st ts tsconfig moduleKindsToEmit useBuildCache changedFiles =
     (Inl (InternalError
        ''EmitFilesPatch.install() cannot be called without first uninstalling the existing patch''),
      st)"
  by (simp add: install_def isInstalled_def)

theorem install_while_installed_witness:
  "isInstalled examplePatched \<and>
   (install examplePatched 8 exampleTsconfig exampleTwoPrimaries True None
      :: (unit exn + unit) \<times> _) =
     (Inl (InternalError
        ''EmitFilesPatch.install() cannot be called without first uninstalling the existing patch''),
      examplePatched)"
proof -
  have a: "isInstalled examplePatched" by (simp add: isInstalled_def examplePatched_eq)
  from install_while_installed [OF a, of 8 exampleTsconfig exampleTwoPrimaries True None] a
  show ?thesis by simp
qed

section \<open>Duplicate module kinds and empty output paths\<close>

text \<open>
  C8, as claimed, fails: \<open>install\<close> looks neither at the module kinds of the other
  variants nor at the output paths. It accepts a list with two variants of the same
  module kind, and a list with an empty output path.
\<close>

theorem invalid_variants_accepted:
  "\<not> distinct (map moduleKind exampleDuplicateVariants) \<and>
   fst (install exampleState 7 exampleTsconfig exampleDuplicateVariants False None
          :: (unit exn + unit) \<times> _) = Inr () \<and>
   outFolderPath (exampleEmptyPathVariants ! 1) = [] \<and>
   fst (install exampleState 7 exampleTsconfig exampleEmptyPathVariants False None
          :: (unit exn + unit) \<times> _) = Inr ()"
  by (simp add: install_def exampleState_def exampleDuplicateVariants_def
      exampleEmptyPathVariants_def Let_def)

text \<open>
  C8, amended. From a state without a patch, \<open>install\<close> succeeds on every list with
  exactly one primary, also when two of its variants have the same module kind or an
  effective output path is empty. An empty effective output path is found by the
  patched \<open>ts.emitFiles\<close> instead: when \<open>m\<close> is the first variant of the list whose
  effective output path is empty, every normal call throws. The calls it makes before
  it throws are calls of the original emitter \<open>f\<close>, for the variants before \<open>m\<close> in
  list order, each with that variant's entry of \<open>compilerOptionsMap\<close> as the host's
  compiler options. When one call for each variant before \<open>m\<close> has returned, it throws
  the internal error of line 119; when one of these calls throws, it is the last call
  and the exception is its own.
\<close>

theorem empty_outDir_found_by_emit:
  assumes notinst: "\<not> isInstalled st"
    and prim: "length (filter isPrimary moduleKindsToEmit) = 1"
  shows "fst (install st ts tsconfig moduleKindsToEmit useBuildCache changedFiles
                :: ('x exn + unit) \<times> _) = Inr () \<and>
         (\<forall>pre m post f (args :: ('o, 't) EmitArgs).
            moduleKindsToEmit = pre @ m # post \<and>
            (\<forall>x\<in>set pre. (if useBuildCache then cacheOutFolderPath x else outFolderPath x) \<noteq> []) \<and>
            (if useBuildCache then cacheOutFolderPath m else outFolderPath m) = [] \<and>
            emitFiles st ts = Some f \<and>
            \<not> truthy (onlyBuildInfo args) \<and> \<not> truthy (emitOnlyDtsFiles args) \<longrightarrow>
            (\<exists>e calls clo cos st''.
               callEmitFiles (recording invoke) getTransformers
                 (snd (install st ts tsconfig moduleKindsToEmit useBuildCache changedFiles
                         :: ('x exn + unit) \<times> _)) ts args = (Inl e, st'') \<and>
               emitFiles (snd (install st ts tsconfig moduleKindsToEmit useBuildCache changedFiles
                         :: ('x exn + unit) \<times> _)) ts = Some (Patched clo) \<and>
               map (map_of (cl_compilerOptionsMap clo)) pre = map Some cos \<and>
               fst (world st'') = fst (world st) @ calls \<and> length calls \<le> length pre \<and>
               (\<forall>i<length calls. callee (calls ! i) = f \<and>
                  arguments (calls ! i) = flavorArgs getTransformers ts args (cos ! i)) \<and>
               (e = InternalError ''Expected compilerOptions.outDir to be assigned'' \<and>
                  length calls = length pre \<and> (\<forall>c\<in>set calls. \<exists>r. outcome c = Inr r)
                \<or> calls \<noteq> [] \<and> outcome (last calls) = Inl e)))"
proof -
  let ?ms = moduleKindsToEmit
  from prim have prim': "length (filter isPrimary ?ms) \<le> 1" by simp
  from install_ok [OF notinst prim', of tsconfig useBuildCache ts changedFiles]
  obtain fp d cm where
    loop: "(installLoop tsconfig useBuildCache ?ms (False, None, []) :: 'x exn + _) = Inr (fp, d, cm)"
    and inst: "(install st ts tsconfig ?ms useBuildCache changedFiles :: ('x exn + unit) \<times> _) =
             (Inr (), st\<lparr>patchedTs := Some ts, baseEmitFiles := emitFiles st ts,
                     emitFiles := (emitFiles st)(ts := Some (Patched
                       \<lparr>cl_ts = ts, cl_moduleKindsToEmit = ?ms, cl_compilerOptionsMap = cm,
                        cl_defaultModuleKind = d, cl_changedFiles = changedFiles\<rparr>))\<rparr>)"
    by blast
  let ?clo = "\<lparr>cl_ts = ts, cl_moduleKindsToEmit = ?ms, cl_compilerOptionsMap = cm,
               cl_defaultModuleKind = d, cl_changedFiles = changedFiles\<rparr>"
  let ?st' = "st\<lparr>patchedTs := Some ts, baseEmitFiles := emitFiles st ts,
                 emitFiles := (emitFiles st)(ts := Some (Patched ?clo))\<rparr>"
  have A: "fst (install st ts tsconfig ?ms useBuildCache changedFiles
                :: ('x exn + unit) \<times> _) = Inr ()"
    by (simp add: inst)
  have B: "\<exists>e calls clo cos st''.
               callEmitFiles (recording invoke) getTransformers ?st' ts args = (Inl e, st'') \<and>
               emitFiles ?st' ts = Some (Patched clo) \<and>
               map (map_of (cl_compilerOptionsMap clo)) pre = map Some cos \<and>
               fst (world st'') = fst (world st) @ calls \<and> length calls \<le> length pre \<and>
               (\<forall>i<length calls. callee (calls ! i) = f \<and>
                  arguments (calls ! i) = flavorArgs getTransformers ts args (cos ! i)) \<and>
               (e = InternalError ''Expected compilerOptions.outDir to be assigned'' \<and>
                  length calls = length pre \<and> (\<forall>c\<in>set calls. \<exists>r. outcome c = Inr r)
                \<or> calls \<noteq> [] \<and> outcome (last calls) = Inl e)"
    if split: "?ms = pre @ m # post"
      and good: "\<forall>x\<in>set pre. (if useBuildCache then cacheOutFolderPath x else outFolderPath x) \<noteq> []"
      and bad: "(if useBuildCache then cacheOutFolderPath m else outFolderPath m) = []"
      and orig: "emitFiles st ts = Some f"
      and normal: "\<not> truthy (onlyBuildInfo args)" "\<not> truthy (emitOnlyDtsFiles args)"
    for pre m post f and args :: "('o, 't) EmitArgs"
  proof -
    have map: "map_of cm x = Some (derivedOptions tsconfig useBuildCache x)" if "x \<in> set ?ms" for x
      using installLoop_map [OF loop, of x] that by simp
    have od: "outDir (derivedOptions tsconfig useBuildCache x) =
                Some (if useBuildCache then cacheOutFolderPath x else outFolderPath x)" for x
      by (simp add: derivedOptions_def Let_def)
    have g: "\<forall>x\<in>set pre. \<exists>co. map_of (cl_compilerOptionsMap ?clo) x = Some co \<and>
                   outDir co \<noteq> None \<and> outDir co \<noteq> Some []"
      using good map od split by auto
    have b1: "map_of (cl_compilerOptionsMap ?clo) m = Some (derivedOptions tsconfig useBuildCache m)"
      using map split by simp
    have b2: "outDir (derivedOptions tsconfig useBuildCache m) = Some []"
      using od bad by simp
    let ?st1 = "case (targetSourceFile args, cl_changedFiles ?clo) of
                  (Some sourceFile, Some c) \<Rightarrow>
                    ?st'\<lparr>setContents := (setContents ?st')(c := insert sourceFile (setContents ?st' c))\<rparr>
                | _ \<Rightarrow> ?st'"
    have w1: "world ?st1 = world st" by (simp split: option.splits)
    have bs: "baseEmitFiles ?st1 = Some f" using orig by (simp split: option.splits)
    from fanOut_recording_bad [OF g b1 b2, of invoke getTransformers f args post None False
        "setContents ?st1" "fst (world st)" "snd (world st)"]
    obtain e calls w' where
      fo: "fanOut (recording invoke) getTransformers ?clo (Some f) args (pre @ m # post)
             (None, False) (setContents ?st1) (fst (world st), snd (world st)) =
               (Inl e, (fst (world st) @ calls, w'))"
      and len: "length calls \<le> length pre"
      and arg: "\<forall>i<length calls. callee (calls ! i) = f \<and>
              arguments (calls ! i) = flavorArgs getTransformers (cl_ts ?clo) args
                (the (map_of (cl_compilerOptionsMap ?clo) (pre ! i)))"
      and dis: "e = InternalError ''Expected compilerOptions.outDir to be assigned'' \<and>
                  length calls = length pre \<and> (\<forall>c\<in>set calls. \<exists>r. outcome c = Inr r)
                \<or> calls \<noteq> [] \<and> outcome (last calls) = Inl e"
      by blast
    have fo': "fanOut (recording invoke) getTransformers ?clo (baseEmitFiles ?st1) args
             (cl_moduleKindsToEmit ?clo) (None, False) (setContents ?st1) (world ?st1) =
               (Inl e, (fst (world st) @ calls, w'))"
      unfolding bs w1 using fo by (simp only: split prod.collapse closure.simps)
    have ep: "emitFilesPatched (recording invoke) getTransformers ?clo ?st' args =
                  (Inl e, ?st1\<lparr>world := (fst (world st) @ calls, w')\<rparr>)"
      unfolding emitFilesPatched_def Let_def fo' using normal by simp
    have call: "callEmitFiles (recording invoke) getTransformers ?st' ts args =
                  (Inl e, ?st1\<lparr>world := (fst (world st) @ calls, w')\<rparr>)"
      unfolding ep [symmetric] by (simp add: callEmitFiles_def)
    have wl: "fst (world (?st1\<lparr>world := (fst (world st) @ calls, w')\<rparr>)) = fst (world st) @ calls"
      by simp
    let ?cos = "map (\<lambda>x. the (map_of cm x)) pre"
    have pe: "emitFiles ?st' ts = Some (Patched ?clo)" by simp
    have cm: "map (map_of (cl_compilerOptionsMap ?clo)) pre = map Some ?cos"
      using g by auto
    have arg': "\<forall>i<length calls. callee (calls ! i) = f \<and>
                  arguments (calls ! i) = flavorArgs getTransformers ts args (?cos ! i)"
    proof (intro allI impI)
      fix i assume i: "i < length calls"
      with len have "i < length pre" by simp
      with arg i show "callee (calls ! i) = f \<and>
                  arguments (calls ! i) = flavorArgs getTransformers ts args (?cos ! i)"
        by simp
    qed
    show ?thesis
      by (rule exI [of _ e], rule exI [of _ calls], rule exI [of _ ?clo], rule exI [of _ ?cos],
          rule exI [of _ "?st1\<lparr>world := (fst (world st) @ calls, w')\<rparr>"])
        (insert call pe cm wl len arg' dis, intro conjI, assumption+)
  qed
  show ?thesis
  proof (intro conjI allI impI)
    show "fst (install st ts tsconfig ?ms useBuildCache changedFiles
                :: ('x exn + unit) \<times> _) = Inr ()"
      by (rule A)
  next
    fix pre m post f and args :: "('o, 't) EmitArgs"
    assume H: "?ms = pre @ m # post \<and>
            (\<forall>x\<in>set pre. (if useBuildCache then cacheOutFolderPath x else outFolderPath x) \<noteq> []) \<and>
            (if useBuildCache then cacheOutFolderPath m else outFolderPath m) = [] \<and>
            emitFiles st ts = Some f \<and>
            \<not> truthy (onlyBuildInfo args) \<and> \<not> truthy (emitOnlyDtsFiles args)"
    from H have h1: "?ms = pre @ m # post" by (rule conjunct1)
    from H have h2: "\<forall>x\<in>set pre. (if useBuildCache then cacheOutFolderPath x else outFolderPath x) \<noteq> []"
      by (rule conjunct2 [THEN conjunct1])
    from H have h3: "(if useBuildCache then cacheOutFolderPath m else outFolderPath m) = []"
      by (rule conjunct2 [THEN conjunct2, THEN conjunct1])
    from H have h4: "emitFiles st ts = Some f"
      by (rule conjunct2 [THEN conjunct2, THEN conjunct2, THEN conjunct1])
    from H have h5: "\<not> truthy (onlyBuildInfo args)"
      by (rule conjunct2 [THEN conjunct2, THEN conjunct2, THEN conjunct2, THEN conjunct1])
    from H have h6: "\<not> truthy (emitOnlyDtsFiles args)"
      by (rule conjunct2 [THEN conjunct2, THEN conjunct2, THEN conjunct2, THEN conjunct2])
    show "\<exists>e calls clo cos st''.
               callEmitFiles (recording invoke) getTransformers
                 (snd (install st ts tsconfig ?ms useBuildCache changedFiles
                         :: ('x exn + unit) \<times> _)) ts args = (Inl e, st'') \<and>
               emitFiles (snd (install st ts tsconfig ?ms useBuildCache changedFiles
                         :: ('x exn + unit) \<times> _)) ts = Some (Patched clo) \<and>
               map (map_of (cl_compilerOptionsMap clo)) pre = map Some cos \<and>
               fst (world st'') = fst (world st) @ calls \<and> length calls \<le> length pre \<and>
               (\<forall>i<length calls. callee (calls ! i) = f \<and>
                  arguments (calls ! i) = flavorArgs getTransformers ts args (cos ! i)) \<and>
               (e = InternalError ''Expected compilerOptions.outDir to be assigned'' \<and>
                  length calls = length pre \<and> (\<forall>c\<in>set calls. \<exists>r. outcome c = Inr r)
                \<or> calls \<noteq> [] \<and> outcome (last calls) = Inl e)"
      unfolding inst snd_conv
      by (rule B [where pre = pre and m = m and post = post and f = f and args = args])
        (use h1 h2 h3 h4 h5 h6 in blast)+
  qed
qed

theorem empty_outDir_found_by_emit_witness:
  "\<not> isInstalled exampleState \<and> length (filter isPrimary exampleEmptyPathVariants) = 1 \<and>
   fst (install exampleState 7 exampleTsconfig exampleEmptyPathVariants False None
          :: (unit exn + unit) \<times> _) = Inr () \<and>
   exampleEmptyPathVariants =
     [exampleEmptyPathVariants ! 0] @ exampleEmptyPathVariants ! 1 # [] \<and>
   outFolderPath (exampleEmptyPathVariants ! 0) \<noteq> [] \<and>
   outFolderPath (exampleEmptyPathVariants ! 1) = [] \<and>
   emitFiles exampleState 7 = Some (Native 2) \<and>
   \<not> truthy (onlyBuildInfo exampleArgs) \<and> \<not> truthy (emitOnlyDtsFiles exampleArgs) \<and>
   (\<exists>e calls clo cos st''.
      callEmitFiles (recording exampleInvoke) exampleGetTransformers
        (snd (install exampleState 7 exampleTsconfig exampleEmptyPathVariants False None
                :: (unit exn + unit) \<times> _)) 7 exampleArgs = (Inl e, st'') \<and>
      emitFiles (snd (install exampleState 7 exampleTsconfig exampleEmptyPathVariants False None
                        :: (unit exn + unit) \<times> _)) 7 = Some (Patched clo) \<and>
      map (map_of (cl_compilerOptionsMap clo)) [exampleEmptyPathVariants ! 0] = map Some cos \<and>
      fst (world st'') = fst (world exampleState) @ calls \<and>
      length calls \<le> length [exampleEmptyPathVariants ! 0] \<and>
      (\<forall>i<length calls. callee (calls ! i) = Native 2 \<and>
         arguments (calls ! i) = flavorArgs exampleGetTransformers 7 exampleArgs (cos ! i)) \<and>
      (e = InternalError ''Expected compilerOptions.outDir to be assigned'' \<and>
         length calls = length [exampleEmptyPathVariants ! 0] \<and>
         (\<forall>c\<in>set calls. \<exists>r. outcome c = Inr r)
       \<or> calls \<noteq> [] \<and> outcome (last calls) = Inl e)) \<and>
   fst (callEmitFiles (recording exampleInvoke) exampleGetTransformers
          (snd (install exampleState 7 exampleTsconfig exampleEmptyPathVariants False None
                  :: (unit exn + unit) \<times> _)) 7 exampleArgs) =
     Inl (InternalError ''Expected compilerOptions.outDir to be assigned'') \<and>
   fst (world (snd (callEmitFiles (recording exampleInvoke) exampleGetTransformers
          (snd (install exampleState 7 exampleTsconfig exampleEmptyPathVariants False None
                  :: (unit exn + unit) \<times> _)) 7 exampleArgs))) =
     [\<lparr>callee = Native 2,
        arguments = flavorArgs exampleGetTransformers 7 exampleArgs
          ((options exampleTsconfig)\<lparr>outDir := Some ''/cjs''\<rparr>),
        setsSeen = (\<lambda>_. {}),
        outcome = Inr \<lparr>emitSkipped = False, diagnostics = Some ''/cjs'',
                       emittedFiles = Some [''/cjs'']\<rparr>\<rparr>]"
proof -
  have a: "\<not> isInstalled exampleState" by (simp add: isInstalled_def exampleState_def)
  have b: "length (filter isPrimary exampleEmptyPathVariants) = 1"
    by (simp add: exampleEmptyPathVariants_def)
  have c: "exampleEmptyPathVariants =
     [exampleEmptyPathVariants ! 0] @ exampleEmptyPathVariants ! 1 # []"
    by (simp add: exampleEmptyPathVariants_def)
  have d: "outFolderPath (exampleEmptyPathVariants ! 0) \<noteq> []"
    by (simp add: exampleEmptyPathVariants_def)
  then have d': "\<forall>x\<in>set [exampleEmptyPathVariants ! 0].
      (if False then cacheOutFolderPath x else outFolderPath x) \<noteq> []"
    by simp
  have e: "outFolderPath (exampleEmptyPathVariants ! 1) = []"
    by (simp add: exampleEmptyPathVariants_def)
  then have e': "(if False then cacheOutFolderPath (exampleEmptyPathVariants ! 1)
                  else outFolderPath (exampleEmptyPathVariants ! 1)) = []"
    by simp
  have f: "emitFiles exampleState 7 = Some (Native 2)" by (simp add: exampleState_def)
  have n1: "\<not> truthy (onlyBuildInfo exampleArgs)" by (simp add: truthy_def exampleArgs_def)
  have n2: "\<not> truthy (emitOnlyDtsFiles exampleArgs)" by (simp add: truthy_def exampleArgs_def)
  note T = empty_outDir_found_by_emit [OF a b, of 7 exampleTsconfig False None
      exampleInvoke exampleGetTransformers]
  from T have A: "fst (install exampleState 7 exampleTsconfig exampleEmptyPathVariants False None
          :: (unit exn + unit) \<times> _) = Inr ()"
    by (rule conjunct1)
  have H: "exampleEmptyPathVariants =
             [exampleEmptyPathVariants ! 0] @ exampleEmptyPathVariants ! 1 # [] \<and>
           (\<forall>x\<in>set [exampleEmptyPathVariants ! 0].
              (if False then cacheOutFolderPath x else outFolderPath x) \<noteq> []) \<and>
           (if False then cacheOutFolderPath (exampleEmptyPathVariants ! 1)
            else outFolderPath (exampleEmptyPathVariants ! 1)) = [] \<and>
           emitFiles exampleState 7 = Some (Native 2) \<and>
           \<not> truthy (onlyBuildInfo exampleArgs) \<and> \<not> truthy (emitOnlyDtsFiles exampleArgs)"
    using c d' e' f n1 n2 by (intro conjI)
  have B: "(\<exists>e calls clo cos st''.
      callEmitFiles (recording exampleInvoke) exampleGetTransformers
        (snd (install exampleState 7 exampleTsconfig exampleEmptyPathVariants False None
                :: (unit exn + unit) \<times> _)) 7 exampleArgs = (Inl e, st'') \<and>
      emitFiles (snd (install exampleState 7 exampleTsconfig exampleEmptyPathVariants False None
                        :: (unit exn + unit) \<times> _)) 7 = Some (Patched clo) \<and>
      map (map_of (cl_compilerOptionsMap clo)) [exampleEmptyPathVariants ! 0] = map Some cos \<and>
      fst (world st'') = fst (world exampleState) @ calls \<and>
      length calls \<le> length [exampleEmptyPathVariants ! 0] \<and>
      (\<forall>i<length calls. callee (calls ! i) = Native 2 \<and>
         arguments (calls ! i) = flavorArgs exampleGetTransformers 7 exampleArgs (cos ! i)) \<and>
      (e = InternalError ''Expected compilerOptions.outDir to be assigned'' \<and>
         length calls = length [exampleEmptyPathVariants ! 0] \<and>
         (\<forall>c\<in>set calls. \<exists>r. outcome c = Inr r)
       \<or> calls \<noteq> [] \<and> outcome (last calls) = Inl e))"
    by (rule T [THEN conjunct2, rule_format, of "[exampleEmptyPathVariants ! 0]"
      "exampleEmptyPathVariants ! 1" "[]" "Native 2" exampleArgs, OF H])
  have C: "fst (callEmitFiles (recording exampleInvoke) exampleGetTransformers
          (snd (install exampleState 7 exampleTsconfig exampleEmptyPathVariants False None
                  :: (unit exn + unit) \<times> _)) 7 exampleArgs) =
     Inl (InternalError ''Expected compilerOptions.outDir to be assigned'')"
    by (simp add: install_def callEmitFiles_def emitFilesPatched_def Let_def truthy_def
        recording_def flavorArgs_def exampleEmptyPathVariants_def example_defs)
  have D: "fst (world (snd (callEmitFiles (recording exampleInvoke) exampleGetTransformers
          (snd (install exampleState 7 exampleTsconfig exampleEmptyPathVariants False None
                  :: (unit exn + unit) \<times> _)) 7 exampleArgs))) =
     [\<lparr>callee = Native 2,
        arguments = flavorArgs exampleGetTransformers 7 exampleArgs
          ((options exampleTsconfig)\<lparr>outDir := Some ''/cjs''\<rparr>),
        setsSeen = (\<lambda>_. {}),
        outcome = Inr \<lparr>emitSkipped = False, diagnostics = Some ''/cjs'',
                       emittedFiles = Some [''/cjs'']\<rparr>\<rparr>]"
    by (simp add: install_def callEmitFiles_def emitFilesPatched_def Let_def truthy_def
        recording_def flavorArgs_def exampleEmptyPathVariants_def example_defs)
  from a b A c d e f n1 n2 B C D show ?thesis by (intro conjI)
qed

section \<open>Failures of uninstall\<close>

text \<open>
  C9. \<open>uninstall\<close> throws the internal error "no patch was installed" when no patch is
  installed, and the internal error "called for the wrong object" when the compiler
  object is not the one that was patched; in both cases the state is unchanged.
\<close>

theorem uninstall_errors:
  "(patchedTs st = None \<longrightarrow>
      uninstall st ts =
        (Inl (InternalError
           ''EmitFilesPatch.uninstall() cannot be called if no patch was installed''), st)) \<and>
   (\<forall>p. patchedTs st = Some p \<and> ts \<noteq> p \<longrightarrow>
      uninstall st ts =
        (Inl (InternalError ''EmitFilesPatch.uninstall() called for the wrong object''), st))"
  by (simp add: uninstall_def)

theorem uninstall_errors_witness:
  "patchedTs exampleState = None \<and>
   (uninstall exampleState 7 :: (unit exn + unit) \<times> _) =
     (Inl (InternalError
        ''EmitFilesPatch.uninstall() cannot be called if no patch was installed''), exampleState) \<and>
   patchedTs examplePatched = Some 7 \<and> (8::nat) \<noteq> 7 \<and>
   (uninstall examplePatched 8 :: (unit exn + unit) \<times> _) =
     (Inl (InternalError ''EmitFilesPatch.uninstall() called for the wrong object''),
      examplePatched)"
proof -
  have a: "patchedTs exampleState = None" by (simp add: exampleState_def)
  have b: "patchedTs examplePatched = Some 7" by (simp add: examplePatched_eq)
  from uninstall_errors [of exampleState 7] uninstall_errors [of examplePatched 8] a b
  show ?thesis by simp
qed

section \<open>The changed-files set\<close>

text \<open>
  C10. After a successful \<open>install\<close> with a \<open>changedFiles\<close> set, take a normal call of
  \<open>ts.emitFiles\<close> for a source file. Every call of the original emitter made during
  it, the first included, already sees the source file in the set: the file is added
  on line 110, before the loop. So after the call the set is its contents before
  \<open>install\<close> with the source file added, whether the call returns or an emitter call
  throws. A further normal call for the same source file leaves the set as it is.
\<close>

theorem changed_file_recorded:
  assumes inst: "(install st ts tsconfig moduleKindsToEmit useBuildCache (Some changedFiles)
              :: ('x exn + unit) \<times> _) = (Inr (), st')"
    and normal: "\<not> truthy (onlyBuildInfo args)" "\<not> truthy (emitOnlyDtsFiles args)"
    and target: "targetSourceFile args = Some sourceFile"
    and normal2: "\<not> truthy (onlyBuildInfo args2)" "\<not> truthy (emitOnlyDtsFiles args2)"
    and target2: "targetSourceFile args2 = Some sourceFile"
    and st2: "st2 = snd (callEmitFiles (recording invoke) getTransformers st' ts args)"
  shows "setContents st2 changedFiles = insert sourceFile (setContents st changedFiles) \<and>
         (\<exists>calls. fst (world st2) = fst (world st') @ calls \<and>
            (\<forall>c\<in>set calls. sourceFile \<in> setsSeen c changedFiles)) \<and>
         setContents (snd (callEmitFiles invoke2 getTransformers2 st2 ts args2)) changedFiles =
           setContents st2 changedFiles"
proof -
  from install_Inr [OF inst] obtain d cm where
    st': "st' = st\<lparr>patchedTs := Some ts, baseEmitFiles := emitFiles st ts,
                     emitFiles := (emitFiles st)(ts := Some (Patched
                       \<lparr>cl_ts = ts, cl_moduleKindsToEmit = moduleKindsToEmit,
                        cl_compilerOptionsMap = cm,
                        cl_defaultModuleKind = d, cl_changedFiles = Some changedFiles\<rparr>))\<rparr>"
    by blast
  let ?clo = "\<lparr>cl_ts = ts, cl_moduleKindsToEmit = moduleKindsToEmit,
                        cl_compilerOptionsMap = cm,
                        cl_defaultModuleKind = d, cl_changedFiles = Some changedFiles\<rparr>"
  let ?sets = "(setContents st)(changedFiles := insert sourceFile (setContents st changedFiles))"
  let ?st1 = "st'\<lparr>setContents := ?sets\<rparr>"
  have c1: "st2 = snd (emitFilesPatched (recording invoke) getTransformers ?clo st' args)"
    by (simp add: st2 st' callEmitFiles_def)
  have e2: "emitFiles st2 ts = Some (Patched ?clo)"
    by (simp add: c1 emitFilesPatched_fields st')
  have s1: "setContents st2 changedFiles = insert sourceFile (setContents st changedFiles)"
    using normal target by (simp add: c1 emitFilesPatched_sink) (simp add: st')
  obtain r lw' where fo: "fanOut (recording invoke) getTransformers ?clo (baseEmitFiles ?st1) args
       moduleKindsToEmit (None, False) ?sets (fst (world st'), snd (world st')) = (r, lw')"
    by (cases "fanOut (recording invoke) getTransformers ?clo (baseEmitFiles ?st1) args
       moduleKindsToEmit (None, False) ?sets (fst (world st'), snd (world st'))")
  from fanOut_recording_sets [OF fo] obtain calls where
    calls: "fst lw' = fst (world st') @ calls" "\<forall>c\<in>set calls. setsSeen c = ?sets"
    by blast
  have w2: "world st2 = lw'"
    using normal target fo
    by (cases r) (auto simp: c1 emitFilesPatched_def Let_def st' split: prod.splits)
  have s3: "\<exists>calls. fst (world st2) = fst (world st') @ calls \<and>
            (\<forall>c\<in>set calls. sourceFile \<in> setsSeen c changedFiles)"
    using calls w2 by auto
  have s2: "setContents (snd (callEmitFiles invoke2 getTransformers2 st2 ts args2)) changedFiles =
           insert sourceFile (setContents st2 changedFiles)"
    using normal2 target2 by (simp add: callEmitFiles_def e2 emitFilesPatched_sink)
  from s1 s2 s3 show ?thesis by auto
qed

theorem changed_file_recorded_witness:
  "(install exampleState 7 exampleTsconfig exampleVariants False (Some 9)
      :: (unit exn + unit) \<times> _) = (Inr (), examplePatched) \<and>
   \<not> truthy (onlyBuildInfo exampleArgs) \<and> \<not> truthy (emitOnlyDtsFiles exampleArgs) \<and>
   targetSourceFile exampleArgs = Some 5 \<and>
   fst (callEmitFiles (recording exampleThrowingInvoke) exampleGetTransformers examplePatched 7
          exampleArgs) = Inl (Thrown ()) \<and>
   setContents (snd (callEmitFiles (recording exampleThrowingInvoke) exampleGetTransformers
                       examplePatched 7 exampleArgs)) 9 = insert 5 (setContents exampleState 9) \<and>
   (\<exists>calls. fst (world (snd (callEmitFiles (recording exampleThrowingInvoke)
                   exampleGetTransformers examplePatched 7 exampleArgs))) =
              fst (world examplePatched) @ calls \<and>
            (\<forall>c\<in>set calls. 5 \<in> setsSeen c 9)) \<and>
   length (fst (world (snd (callEmitFiles (recording exampleThrowingInvoke)
                   exampleGetTransformers examplePatched 7 exampleArgs)))) = 2 \<and>
   setContents (snd (callEmitFiles (recording exampleInvoke) exampleGetTransformers
       (snd (callEmitFiles (recording exampleThrowingInvoke) exampleGetTransformers
               examplePatched 7 exampleArgs)) 7 exampleArgs)) 9 =
     setContents (snd (callEmitFiles (recording exampleThrowingInvoke) exampleGetTransformers
                       examplePatched 7 exampleArgs)) 9 \<and>
   setContents (snd (callEmitFiles (recording exampleThrowingInvoke) exampleGetTransformers
                       examplePatched 7 exampleArgs)) 9 = {5}"
proof -
  have n1: "\<not> truthy (onlyBuildInfo exampleArgs)" by (simp add: truthy_def exampleArgs_def)
  have n2: "\<not> truthy (emitOnlyDtsFiles exampleArgs)" by (simp add: truthy_def exampleArgs_def)
  have t: "targetSourceFile exampleArgs = Some 5" by (simp add: exampleArgs_def)
  have e: "fst (callEmitFiles (recording exampleThrowingInvoke) exampleGetTransformers examplePatched 7
          exampleArgs) = Inl (Thrown ())"
    by (simp add: example_call_throwing)
  have s: "setContents (snd (callEmitFiles (recording exampleThrowingInvoke) exampleGetTransformers
                       examplePatched 7 exampleArgs)) 9 = {5}"
    by (simp add: example_call_throwing)
  have l: "length (fst (world (snd (callEmitFiles (recording exampleThrowingInvoke)
                   exampleGetTransformers examplePatched 7 exampleArgs)))) = 2"
    by (simp add: example_call_throwing)
  note T = changed_file_recorded [OF examplePatched_install n1 n2 t n1 n2 t refl,
      of exampleThrowingInvoke exampleGetTransformers
         "recording exampleInvoke" exampleGetTransformers]
  from T have A: "setContents (snd (callEmitFiles (recording exampleThrowingInvoke)
      exampleGetTransformers examplePatched 7 exampleArgs)) 9 = insert 5 (setContents exampleState 9)"
    by (rule conjunct1)
  from T have B: "\<exists>calls. fst (world (snd (callEmitFiles (recording exampleThrowingInvoke)
                   exampleGetTransformers examplePatched 7 exampleArgs))) =
              fst (world examplePatched) @ calls \<and>
            (\<forall>c\<in>set calls. 5 \<in> setsSeen c 9)"
    by (rule conjunct2 [THEN conjunct1])
  from T have C: "setContents (snd (callEmitFiles (recording exampleInvoke) exampleGetTransformers
       (snd (callEmitFiles (recording exampleThrowingInvoke) exampleGetTransformers
               examplePatched 7 exampleArgs)) 7 exampleArgs)) 9 =
     setContents (snd (callEmitFiles (recording exampleThrowingInvoke) exampleGetTransformers
                       examplePatched 7 exampleArgs)) 9"
    by (rule conjunct2 [THEN conjunct2])
  from examplePatched_install n1 n2 t e A B l C s show ?thesis by (intro conjI)
qed

end
